theory Spec2Isabelle
  imports Complex_Main "HOL-Library.Word" "HOL-Library.Signed_Division"
begin

section \<open>The sensor task manager (sensor\_task.h, sensor\_task.c)\<close>

text \<open>
  A shallow embedding of the registry, the polling scheduler, the analytics engine and
  the fault handler of \<^verbatim>\<open>sensor_task.c\<close>.

  Conventions of the embedding:
  \<^item> \<^verbatim>\<open>float\<close> samples and statistics are values of type \<open>real\<close>: assignment and
    comparison of finite floats are exact there, the sum and the quotient of the
    average are taken without rounding, and NaN is not represented. The conversion
    \<^verbatim>\<open>(float)ppm\<close> of the smoke reading (an \<^verbatim>\<open>int\<close>) is taken as the exact value,
    which is what C computes for readings of magnitude up to \<open>2^24\<close>; above that C
    rounds to the nearest \<^verbatim>\<open>float\<close>, which the model does not.
  \<^item> \<^verbatim>\<open>SensorType_t\<close> is a C enumeration used as an array index; any integer can be
    passed for it, so it is a \<open>nat\<close> and the range checks of the code are kept.
  \<^item> The tables \<^verbatim>\<open>sensors[SENSOR_TYPE_MAX]\<close> and \<^verbatim>\<open>callbacks[SENSOR_TYPE_MAX]\<close> are functions
    of the index. Every access of the code is behind a range check or a loop bound, so
    only the slots below \<^verbatim>\<open>SENSOR_TYPE_MAX\<close> are ever read or written.
  \<^item> \<^verbatim>\<open>uint32_t\<close> fields are \<open>32 word\<close>. The \<^verbatim>\<open>uint16_t\<close> fields \<^verbatim>\<open>history_head\<close> and
    \<^verbatim>\<open>history_count\<close> are \<open>nat\<close>: the code only ever stores a value reduced modulo
    \<^verbatim>\<open>SENSOR_HISTORY_SIZE\<close> in the first and increments the second below that bound.
  \<^item> The union \<^verbatim>\<open>values\<close> keeps one field per member; the code reads the member of
    the instance's own kind only.
  \<^item> An adapter callback receives a pointer to its instance: it is a function from the
    instance to the returned flag and the instance as the callback left it. The device
    state behind \<^verbatim>\<open>device_handle\<close> is owned by the adapter and is carried in the
    instance (\<open>None\<close> is the NULL handle).
  \<^item> The private functions take a pointer into \<^verbatim>\<open>g_sensor_manager.sensors\<close>; the model
    passes the index of that slot.
  \<^item> \<^verbatim>\<open>HAL_GetTick\<close>, the result of \<^verbatim>\<open>osMutexCreate\<close>, \<^verbatim>\<open>osThreadCreate\<close> and of a
    bounded \<^verbatim>\<open>osMutexWait\<close> come from outside and are parameters. The unbounded wait of
    the write path returns once the mutex is held.
  \<^item> The event callback is a function pointer of the application: the model keeps
    whether it is set, and the list of events it was called with.
\<close>

subsection \<open>Configuration and enumerations\<close>

definition SENSOR_MAX_NAME_LEN :: nat where [simp]: "SENSOR_MAX_NAME_LEN = 32"

definition SENSOR_HISTORY_SIZE :: nat where [simp]: "SENSOR_HISTORY_SIZE = 20"

definition SENSOR_TYPE_NONE :: nat where [simp]: "SENSOR_TYPE_NONE = 0"

definition SENSOR_TYPE_GY30 :: nat where [simp]: "SENSOR_TYPE_GY30 = 1"

definition SENSOR_TYPE_SHT30 :: nat where [simp]: "SENSOR_TYPE_SHT30 = 2"

definition SENSOR_TYPE_SMOKE :: nat where [simp]: "SENSOR_TYPE_SMOKE = 3"

definition SENSOR_TYPE_MAX :: nat where [simp]: "SENSOR_TYPE_MAX = 4"

datatype SensorStatus_t =
  SENSOR_STATUS_OFFLINE | SENSOR_STATUS_ONLINE | SENSOR_STATUS_ERROR | SENSOR_STATUS_INITIALIZING

datatype SensorEventType_t =
  SENSOR_EVENT_DATA_UPDATE | SENSOR_EVENT_STATUS_CHANGE | SENSOR_EVENT_ERROR

subsection \<open>Data structures\<close>

record SensorValues =
  gy30_lux :: real
  sht30_temp :: real
  sht30_humi :: real
  smoke_ppm :: "32 word"

record SensorData_t =
  data_values :: SensorValues
  timestamp :: "32 word"
  is_valid :: bool

record SensorStats_t =
  min_stat :: real
  max_stat :: real
  avg :: real
  local_min :: real
  local_max :: real
  local_avg :: real

record 'd SensorInstance_t =
  type :: nat
  name :: string
  status :: SensorStatus_t
  data :: SensorData_t
  update_interval_ms :: "32 word"
  last_update_time :: "32 word"
  error_count :: "32 word"
  is_enabled :: bool
  device_handle :: "'d option"
  stats :: SensorStats_t
  secondary_stats :: SensorStats_t
  history :: "real list"
  secondary_history :: "real list"
  history_head :: nat
  history_count :: nat

type_synonym 'd adapter = "'d SensorInstance_t \<Rightarrow> bool \<times> 'd SensorInstance_t"

record 'd SensorCallbacks_t =
  init_func :: "'d adapter option"
  read_func :: "'d adapter option"
  deinit_func :: "'d adapter option"
  get_unit :: "string option"

record SensorEvent_t =
  event_type :: SensorEventType_t
  sensor_type :: nat
  event_data :: SensorData_t
  event_status :: SensorStatus_t

text \<open>
  The static variables of the module: the fields of \<^verbatim>\<open>g_sensor_manager\<close>, then
  \<^verbatim>\<open>g_event_callback\<close> with the events handed to it, \<^verbatim>\<open>sensor_task_handle\<close>, and the
  static buffer of \<^verbatim>\<open>SensorTask_GetPrimaryHistory\<close>.
\<close>

record 'd SensorTask =
  sensors :: "nat \<Rightarrow> 'd SensorInstance_t"
  callbacks :: "nat \<Rightarrow> 'd SensorCallbacks_t"
  is_initialized :: bool
  active_sensor_count :: "32 word"
  global_data_mutex :: bool
  g_event_callback :: bool
  delivered :: "SensorEvent_t list"
  sensor_task_handle :: bool
  ordered_primary_history :: "real list"

subsection \<open>Zero-initialised storage\<close>

definition zero_values :: SensorValues where
  "zero_values = \<lparr>gy30_lux = 0, sht30_temp = 0, sht30_humi = 0, smoke_ppm = 0\<rparr>"

definition zero_data :: SensorData_t where
  "zero_data = \<lparr>data_values = zero_values, timestamp = 0, is_valid = False\<rparr>"

definition zero_stats :: SensorStats_t where
  "zero_stats = \<lparr>min_stat = 0, max_stat = 0, avg = 0, local_min = 0, local_max = 0, local_avg = 0\<rparr>"

definition zero_instance :: "'d SensorInstance_t" where
  "zero_instance =
     \<lparr>type = 0, name = [], status = SENSOR_STATUS_OFFLINE, data = zero_data,
      update_interval_ms = 0, last_update_time = 0, error_count = 0, is_enabled = False,
      device_handle = None, stats = zero_stats, secondary_stats = zero_stats,
      history = replicate SENSOR_HISTORY_SIZE 0,
      secondary_history = replicate SENSOR_HISTORY_SIZE 0,
      history_head = 0, history_count = 0\<rparr>"

definition zero_callbacks :: "'d SensorCallbacks_t" where
  "zero_callbacks = \<lparr>init_func = None, read_func = None, deinit_func = None, get_unit = None\<rparr>"

text \<open>The module's statics as the C start-up code leaves them.\<close>

definition boot_state :: "'d SensorTask" where
  "boot_state =
     \<lparr>sensors = (\<lambda>_. zero_instance), callbacks = (\<lambda>_. zero_callbacks),
      is_initialized = False, active_sensor_count = 0, global_data_mutex = False,
      g_event_callback = False, delivered = [], sensor_task_handle = False,
      ordered_primary_history = replicate SENSOR_HISTORY_SIZE 0\<rparr>"

subsection \<open>Event notifier\<close>

definition SensorTask_RegisterEventCallback :: "bool \<Rightarrow> 'd SensorTask \<Rightarrow> bool \<times> 'd SensorTask" where
  "SensorTask_RegisterEventCallback callback st = (True, st\<lparr>g_event_callback := callback\<rparr>)"

definition SensorTask_NotifyEvent ::
  "SensorEventType_t \<Rightarrow> nat \<Rightarrow> SensorData_t option \<Rightarrow> SensorStatus_t \<Rightarrow> 'd SensorTask \<Rightarrow> 'd SensorTask"
where
  "SensorTask_NotifyEvent et ty d s st =
     (if g_event_callback st then
        st\<lparr>delivered := delivered st @
             [\<lparr>event_type = et, sensor_type = ty,
               event_data = (case d of None \<Rightarrow> zero_data | Some x \<Rightarrow> x),
               event_status = s\<rparr>]\<rparr>
      else st)"

subsection \<open>Registry\<close>

fun decimal :: "nat \<Rightarrow> string" where
  "decimal n = (if n < 10 then [char_of (48 + n)] else decimal (n div 10) @ [char_of (48 + n mod 10)])"

declare decimal.simps [simp del]

definition SensorTask_Init_slot :: "(nat \<Rightarrow> 'd SensorInstance_t) \<Rightarrow> nat \<Rightarrow> (nat \<Rightarrow> 'd SensorInstance_t)" where
  "SensorTask_Init_slot tab i =
     tab(i := (tab i)\<lparr>type := i, status := SENSOR_STATUS_OFFLINE,
                      name := take (SENSOR_MAX_NAME_LEN - 1) (''Sensor_'' @ decimal i)\<rparr>)"

definition SensorTask_Init :: "bool \<Rightarrow> bool \<Rightarrow> 'd SensorTask \<Rightarrow> bool \<times> 'd SensorTask" where
  "SensorTask_Init mutex_created thread_created st =
     (if is_initialized st then (True, st)
      else
        let st1 = st\<lparr>sensors := (\<lambda>_. zero_instance), callbacks := (\<lambda>_. zero_callbacks),
                     is_initialized := False, active_sensor_count := 0,
                     global_data_mutex := mutex_created\<rparr>
        in if \<not> mutex_created then (False, st1)
           else
             let st2 = st1\<lparr>sensors := foldl SensorTask_Init_slot (sensors st1) [0..<SENSOR_TYPE_MAX],
                           sensor_task_handle := thread_created\<rparr>
             in if \<not> thread_created then (False, st2)
                else (True, st2\<lparr>is_initialized := True, active_sensor_count := 0\<rparr>))"

definition SensorTask_EnableSensor :: "nat \<Rightarrow> 'd SensorTask \<Rightarrow> bool \<times> 'd SensorTask" where
  "SensorTask_EnableSensor ty st =
     (if \<not> is_initialized st \<or> ty \<ge> SENSOR_TYPE_MAX \<or> ty = SENSOR_TYPE_NONE then (False, st)
      else
        let sensor = sensors st ty in
        if \<not> is_enabled sensor then
          let sensor1 = sensor\<lparr>is_enabled := True, status := SENSOR_STATUS_INITIALIZING,
                               error_count := 0\<rparr>;
              st1 = st\<lparr>sensors := (sensors st)(ty := sensor1),
                       active_sensor_count := active_sensor_count st + 1\<rparr>
          in (True, SensorTask_NotifyEvent SENSOR_EVENT_STATUS_CHANGE ty None
                      SENSOR_STATUS_INITIALIZING st1)
        else (True, st))"

definition SensorTask_DisableSensor :: "nat \<Rightarrow> 'd SensorTask \<Rightarrow> bool \<times> 'd SensorTask" where
  "SensorTask_DisableSensor ty st =
     (if \<not> is_initialized st \<or> ty \<ge> SENSOR_TYPE_MAX \<or> ty = SENSOR_TYPE_NONE then (False, st)
      else
        let sensor = sensors st ty in
        if is_enabled sensor then
          let sensor1 = (case deinit_func (callbacks st ty) of
                           None \<Rightarrow> sensor
                         | Some f \<Rightarrow> snd (f sensor));
              sensor2 = sensor1\<lparr>is_enabled := False, status := SENSOR_STATUS_OFFLINE\<rparr>;
              st1 = st\<lparr>sensors := (sensors st)(ty := sensor2),
                       active_sensor_count := active_sensor_count st - 1\<rparr>
          in (True, SensorTask_NotifyEvent SENSOR_EVENT_STATUS_CHANGE ty None
                      SENSOR_STATUS_OFFLINE st1)
        else (True, st))"

text \<open>
  \<^verbatim>\<open>name\<close> is the content of the caller's C string; \<^verbatim>\<open>strncpy\<close> with the terminator
  written at the last position keeps its first \<^verbatim>\<open>SENSOR_MAX_NAME_LEN - 1\<close> characters.
  \<open>None\<close> for the callbacks is the NULL pointer.
\<close>

definition SensorTask_RegisterSensor ::
  "nat \<Rightarrow> string \<Rightarrow> 'd SensorCallbacks_t option \<Rightarrow> 'd option \<Rightarrow> 32 word \<Rightarrow> 'd SensorTask
   \<Rightarrow> bool \<times> 'd SensorTask"
where
  "SensorTask_RegisterSensor ty nm cbs dev interval st =
     (if \<not> is_initialized st \<or> ty \<ge> SENSOR_TYPE_MAX \<or> ty = SENSOR_TYPE_NONE then (False, st)
      else case cbs of
        None \<Rightarrow> (False, st)
      | Some cb \<Rightarrow>
          if init_func cb = None \<or> read_func cb = None then (False, st)
          else
            let sensor = (sensors st ty)\<lparr>name := take (SENSOR_MAX_NAME_LEN - 1) nm,
                                         device_handle := dev,
                                         update_interval_ms := interval,
                                         error_count := 0,
                                         is_enabled := False\<rparr>;
                st1 = st\<lparr>sensors := (sensors st)(ty := sensor),
                         callbacks := (callbacks st)(ty := cb)\<rparr>
            in (True, snd (SensorTask_EnableSensor ty st1)))"

text \<open>
  The getters write through an out-pointer: \<open>None\<close> is the NULL pointer, \<open>Some v\<close> a
  pointer to a variable holding \<open>v\<close>. \<open>mutex_ok\<close> tells whether the 100 ms wait for the
  data mutex returned \<^verbatim>\<open>osOK\<close>.
\<close>

definition SensorTask_GetSensorData ::
  "bool \<Rightarrow> nat \<Rightarrow> SensorData_t option \<Rightarrow> 'd SensorTask \<Rightarrow> bool \<times> SensorData_t option"
where
  "SensorTask_GetSensorData mutex_ok ty out st =
     (if \<not> is_initialized st \<or> ty \<ge> SENSOR_TYPE_MAX \<or> ty = SENSOR_TYPE_NONE \<or> out = None
      then (False, out)
      else
        let sensor = sensors st ty in
        if is_enabled sensor \<and> is_valid (data sensor) \<and> mutex_ok then (True, Some (data sensor))
        else (False, out))"

definition SensorTask_GetSensorStatus ::
  "bool \<Rightarrow> nat \<Rightarrow> SensorStatus_t option \<Rightarrow> 'd SensorTask \<Rightarrow> bool \<times> SensorStatus_t option"
where
  "SensorTask_GetSensorStatus mutex_ok ty out st =
     (if \<not> is_initialized st \<or> ty \<ge> SENSOR_TYPE_MAX \<or> out = None then (False, out)
      else
        let sensor = sensors st ty in
        if mutex_ok then (True, Some (status sensor)) else (False, out))"

definition SensorTask_SetUpdateInterval :: "nat \<Rightarrow> 32 word \<Rightarrow> 'd SensorTask \<Rightarrow> bool \<times> 'd SensorTask" where
  "SensorTask_SetUpdateInterval ty interval_ms st =
     (if \<not> is_initialized st \<or> ty \<ge> SENSOR_TYPE_MAX \<or> ty = SENSOR_TYPE_NONE \<or> interval_ms < 100
      then (False, st)
      else (True, st\<lparr>sensors := (sensors st)(ty := (sensors st ty)\<lparr>update_interval_ms := interval_ms\<rparr>)\<rparr>))"


subsection \<open>Analytics engine: the history and statistics part of \<^verbatim>\<open>SensorTask_UpdateSensor\<close>\<close>

text \<open>Step 1 of the update: the \<^verbatim>\<open>switch\<close> over the instance's kind.\<close>

definition primary_value :: "'d SensorInstance_t \<Rightarrow> real" where
  "primary_value sensor =
     (if type sensor = SENSOR_TYPE_SHT30 then sht30_temp (data_values (data sensor))
      else if type sensor = SENSOR_TYPE_GY30 then gy30_lux (data_values (data sensor))
      else if type sensor = SENSOR_TYPE_SMOKE
        then real_of_int (sint (smoke_ppm (data_values (data sensor))))
      else 0)"

definition secondary_value :: "'d SensorInstance_t \<Rightarrow> real" where
  "secondary_value sensor =
     (if type sensor = SENSOR_TYPE_SHT30 then sht30_humi (data_values (data sensor)) else 0)"

text \<open>
  Step 2: the write into the circular buffers. The write is inside the arrays when
  \<open>history_head < SENSOR_HISTORY_SIZE\<close>, which the assignment to \<^verbatim>\<open>history_head\<close>
  below re-establishes on every update.
\<close>

definition SensorTask_UpdateSensor_history ::
  "real \<Rightarrow> real \<Rightarrow> 'd SensorInstance_t \<Rightarrow> 'd SensorInstance_t"
where
  "SensorTask_UpdateSensor_history primary secondary sensor =
     (let sensor1 = sensor\<lparr>history := (history sensor)[history_head sensor := primary]\<rparr>;
          sensor2 = (if type sensor1 = SENSOR_TYPE_SHT30
                     then sensor1\<lparr>secondary_history :=
                            (secondary_history sensor1)[history_head sensor1 := secondary]\<rparr>
                     else sensor1);
          sensor3 = sensor2\<lparr>history_head := (history_head sensor2 + 1) mod SENSOR_HISTORY_SIZE\<rparr>
      in if history_count sensor3 < SENSOR_HISTORY_SIZE
         then sensor3\<lparr>history_count := history_count sensor3 + 1\<rparr>
         else sensor3)"

text \<open>
  The rescan loop of step 3 over one buffer: sum, minimum and maximum of the
  \<open>n\<close> entries from \<open>start_idx\<close> on, the last two starting from the entry at
  \<open>start_idx\<close>. The source runs the primary and the secondary channel in one loop;
  the two accumulations do not depend on each other.
\<close>

definition scan_step :: "real list \<Rightarrow> nat \<Rightarrow> real \<times> real \<times> real \<Rightarrow> nat \<Rightarrow> real \<times> real \<times> real" where
  "scan_step buf start_idx acc i =
     (case acc of (p_sum, p_min, p_max) \<Rightarrow>
        let p_val = buf ! ((start_idx + i) mod SENSOR_HISTORY_SIZE)
        in (p_sum + p_val,
            if p_val < p_min then p_val else p_min,
            if p_val > p_max then p_val else p_max))"

definition scan_window :: "real list \<Rightarrow> nat \<Rightarrow> nat \<Rightarrow> real \<times> real \<times> real" where
  "scan_window buf start_idx n =
     foldl (scan_step buf start_idx) (0, buf ! start_idx, buf ! start_idx) [0..<n]"

text \<open>
  \<^verbatim>\<open>start_idx\<close> is computed in \<^verbatim>\<open>int\<close> with C's truncating remainder; it is a valid
  index whenever \<open>history_count \<le> history_head + SENSOR_HISTORY_SIZE\<close>.
\<close>

definition start_index :: "'d SensorInstance_t \<Rightarrow> int" where
  "start_index sensor =
     (int (history_head sensor) - int (history_count sensor) + int SENSOR_HISTORY_SIZE)
       smod int SENSOR_HISTORY_SIZE"

definition SensorTask_UpdateSensor_stats ::
  "real \<Rightarrow> real \<Rightarrow> 'd SensorInstance_t \<Rightarrow> 'd SensorInstance_t"
where
  "SensorTask_UpdateSensor_stats primary secondary sensor =
     (if history_count sensor = 1 then
        let sensor1 = sensor\<lparr>stats := (stats sensor)\<lparr>min_stat := primary, max_stat := primary,
                                                    avg := primary\<rparr>\<rparr>
        in if type sensor1 = SENSOR_TYPE_SHT30
           then sensor1\<lparr>secondary_stats :=
                  (secondary_stats sensor1)\<lparr>min_stat := secondary, max_stat := secondary,
                                            avg := secondary\<rparr>\<rparr>
           else sensor1
      else
        let st1 = stats sensor;
            st2 = (if primary < min_stat st1 then st1\<lparr>min_stat := primary\<rparr> else st1);
            st3 = (if primary > max_stat st2 then st2\<lparr>max_stat := primary\<rparr> else st2);
            ss1 = secondary_stats sensor;
            ss2 = (if type sensor = SENSOR_TYPE_SHT30 \<and> secondary < min_stat ss1
                   then ss1\<lparr>min_stat := secondary\<rparr> else ss1);
            ss3 = (if type sensor = SENSOR_TYPE_SHT30 \<and> secondary > max_stat ss2
                   then ss2\<lparr>max_stat := secondary\<rparr> else ss2);
            start_idx = nat (start_index sensor);
            (p_sum, p_min, p_max) = scan_window (history sensor) start_idx (history_count sensor);
            p_avg = p_sum / real (history_count sensor);
            st4 = st3\<lparr>local_min := p_min, local_max := p_max, local_avg := p_avg, avg := p_avg\<rparr>;
            sensor1 = sensor\<lparr>stats := st4, secondary_stats := ss3\<rparr>
        in if type sensor1 = SENSOR_TYPE_SHT30 then
             let (s_sum, s_min, s_max) =
                   scan_window (secondary_history sensor1) start_idx (history_count sensor1);
                 s_avg = s_sum / real (history_count sensor1)
             in sensor1\<lparr>secondary_stats :=
                  ss3\<lparr>local_min := s_min, local_max := s_max, local_avg := s_avg, avg := s_avg\<rparr>\<rparr>
           else sensor1)"

subsection \<open>Scheduler\<close>

definition SensorTask_InitializeSensor :: "nat \<Rightarrow> 'd SensorTask \<Rightarrow> bool \<times> 'd SensorTask" where
  "SensorTask_InitializeSensor i st =
     (let sensor = sensors st i in
      if type sensor \<ge> SENSOR_TYPE_MAX then (False, st)
      else case init_func (callbacks st (type sensor)) of
             Some f \<Rightarrow> (fst (f sensor), st\<lparr>sensors := (sensors st)(i := snd (f sensor))\<rparr>)
           | None \<Rightarrow> (False, st))"

text \<open>
  The block of \<^verbatim>\<open>SensorTask_UpdateSensor\<close> that runs with the data mutex held, on the
  instance as the read callback left it.
\<close>

definition SensorTask_UpdateSensor_locked :: "32 word \<Rightarrow> 'd SensorInstance_t \<Rightarrow> 'd SensorInstance_t" where
  "SensorTask_UpdateSensor_locked tick sensor1 =
     (let sensor2 = sensor1\<lparr>data := (data sensor1)\<lparr>timestamp := tick, is_valid := True\<rparr>,
                           error_count := 0\<rparr>;
          primary = primary_value sensor2;
          secondary = secondary_value sensor2;
          sensor3 = SensorTask_UpdateSensor_history primary secondary sensor2
      in SensorTask_UpdateSensor_stats primary secondary sensor3)"

definition SensorTask_UpdateSensor :: "nat \<Rightarrow> 32 word \<Rightarrow> 'd SensorTask \<Rightarrow> bool \<times> 'd SensorTask" where
  "SensorTask_UpdateSensor i tick st =
     (let sensor = sensors st i in
      if type sensor \<ge> SENSOR_TYPE_MAX then (False, st)
      else case read_func (callbacks st (type sensor)) of
             None \<Rightarrow> (False, st)
           | Some f \<Rightarrow>
               let result = fst (f sensor); sensor1 = snd (f sensor) in
               if result
               then (True, st\<lparr>sensors := (sensors st)(i := SensorTask_UpdateSensor_locked tick sensor1)\<rparr>)
               else (False, st\<lparr>sensors := (sensors st)(i := sensor1)\<rparr>))"

definition set_status :: "nat \<Rightarrow> SensorStatus_t \<Rightarrow> 'd SensorTask \<Rightarrow> 'd SensorTask" where
  "set_status i s st = st\<lparr>sensors := (sensors st)(i := (sensors st i)\<lparr>status := s\<rparr>)\<rparr>"

definition SensorTask_HandleSensorError :: "nat \<Rightarrow> 'd SensorTask \<Rightarrow> 'd SensorTask" where
  "SensorTask_HandleSensorError i st =
     (let st1 = st\<lparr>sensors := (sensors st)(i := (sensors st i)\<lparr>error_count :=
                                                    error_count (sensors st i) + 1\<rparr>)\<rparr>;
          st2 = (if error_count (sensors st1 i) = 5
                 then set_status i SENSOR_STATUS_INITIALIZING st1 else st1)
      in if error_count (sensors st2 i) = 10 then
           let st3 = snd (SensorTask_DisableSensor (type (sensors st2 i)) st2);
               st4 = set_status i SENSOR_STATUS_ERROR st3
           in SensorTask_NotifyEvent SENSOR_EVENT_STATUS_CHANGE (type (sensors st4 i)) None
                SENSOR_STATUS_ERROR st4
         else st2)"

text \<open>
  The second half of the loop body of \<^verbatim>\<open>SensorTask_MainLoop\<close> for slot \<open>i\<close>: the check of
  the update interval and the read. \<open>current_time\<close> and \<open>stamp\<close> are the values of
  \<^verbatim>\<open>HAL_GetTick\<close> in the loop and inside \<^verbatim>\<open>SensorTask_UpdateSensor\<close>.
\<close>

definition SensorTask_MainLoop_update :: "nat \<Rightarrow> 32 word \<Rightarrow> 32 word \<Rightarrow> 'd SensorTask \<Rightarrow> 'd SensorTask" where
  "SensorTask_MainLoop_update i current_time stamp st =
     (if current_time - last_update_time (sensors st i) \<ge> update_interval_ms (sensors st i) then
        let (ok, st1) = SensorTask_UpdateSensor i stamp st in
        if ok then
          let st2 = st1\<lparr>sensors := (sensors st1)(i := (sensors st1 i)\<lparr>last_update_time := current_time\<rparr>)\<rparr>
          in SensorTask_NotifyEvent SENSOR_EVENT_DATA_UPDATE i (Some (data (sensors st2 i)))
               (status (sensors st2 i)) st2
        else SensorTask_HandleSensorError i st1
      else st)"

text \<open>
  The whole loop body for slot \<open>i\<close>; \<open>init_time\<close> is the value of \<^verbatim>\<open>HAL_GetTick\<close> after a
  successful initialisation.
\<close>

definition SensorTask_MainLoop_body ::
  "nat \<Rightarrow> 32 word \<Rightarrow> 32 word \<Rightarrow> 32 word \<Rightarrow> 'd SensorTask \<Rightarrow> 'd SensorTask"
where
  "SensorTask_MainLoop_body i init_time current_time stamp st =
     (if \<not> is_enabled (sensors st i) then st
      else if status (sensors st i) = SENSOR_STATUS_INITIALIZING then
        let (ok, st1) = SensorTask_InitializeSensor i st in
        if ok then
          let st2 = st1\<lparr>sensors := (sensors st1)(i := (sensors st1 i)\<lparr>status := SENSOR_STATUS_ONLINE,
                                                         last_update_time := init_time\<rparr>)\<rparr>;
              st3 = SensorTask_NotifyEvent SENSOR_EVENT_STATUS_CHANGE i None SENSOR_STATUS_ONLINE st2
          in SensorTask_MainLoop_update i current_time stamp st3
        else SensorTask_HandleSensorError i st1
      else SensorTask_MainLoop_update i current_time stamp st)"

text \<open>
  One sweep of the scheduler over the slots \<open>1 .. SENSOR_TYPE_MAX - 1\<close>; \<open>ticks i\<close> are the
  three clock readings used for slot \<open>i\<close>. The logging and the sleep between two sweeps
  do not touch the state.
\<close>

definition SensorTask_MainLoop_sweep ::
  "(nat \<Rightarrow> 32 word \<times> 32 word \<times> 32 word) \<Rightarrow> 'd SensorTask \<Rightarrow> 'd SensorTask"
where
  "SensorTask_MainLoop_sweep ticks st =
     foldl (\<lambda>s i. case ticks i of (t1, t2, t3) \<Rightarrow> SensorTask_MainLoop_body i t1 t2 t3 s)
       st [1..<SENSOR_TYPE_MAX]"

subsection \<open>History query\<close>

text \<open>
  The copy loop of \<^verbatim>\<open>SensorTask_GetPrimaryHistory\<close>: entry \<open>i\<close> of the static buffer
  receives the entry at \<open>read_idx\<close>, which then advances circularly.
\<close>

fun copy_history :: "real list \<Rightarrow> nat \<Rightarrow> nat \<Rightarrow> nat \<Rightarrow> real list \<Rightarrow> real list" where
  "copy_history buf read_idx i 0 ordered = ordered"
| "copy_history buf read_idx i (Suc n) ordered =
     copy_history buf ((read_idx + 1) mod SENSOR_HISTORY_SIZE) (i + 1) n
       (ordered[i := buf ! read_idx])"

text \<open>
  The result is \<open>None\<close> when \<^verbatim>\<open>history_data\<close> is NULL: every path of the function writes
  through it. Otherwise it is the returned count, the pointer stored in
  \<^verbatim>\<open>*history_data\<close> (\<open>None\<close> for NULL, else the content of the static buffer it points
  to) and the new state.
\<close>

definition SensorTask_GetPrimaryHistory ::
  "bool \<Rightarrow> nat \<Rightarrow> bool \<Rightarrow> 'd SensorTask \<Rightarrow> ((nat \<times> real list option) \<times> 'd SensorTask) option"
where
  "SensorTask_GetPrimaryHistory mutex_ok ty history_data st =
     (if \<not> history_data then None
      else if \<not> is_initialized st \<or> ty \<ge> SENSOR_TYPE_MAX then Some ((0, None), st)
      else
        let sensor = sensors st ty in
        if is_enabled sensor \<and> history_count sensor > 0 \<and> mutex_ok then
          let read_idx = (if history_count sensor < SENSOR_HISTORY_SIZE then 0
                          else history_head sensor);
              ordered = copy_history (history sensor) read_idx 0 (history_count sensor)
                          (ordered_primary_history st)
          in Some ((history_count sensor, Some ordered), st\<lparr>ordered_primary_history := ordered\<rparr>)
        else Some ((0, None), st))"


subsection \<open>Reachable states\<close>

text \<open>
  The states the module can be in: the boot state, and every state reached from it by a
  call of the public interface or by a sweep of the scheduler, whatever the adapters and
  the clock do.
\<close>

inductive reachable :: "'d SensorTask \<Rightarrow> bool" where
  r_boot: "reachable boot_state"
| r_init: "reachable st \<Longrightarrow> reachable (snd (SensorTask_Init mutex_created thread_created st))"
| r_register: "reachable st \<Longrightarrow> reachable (snd (SensorTask_RegisterSensor ty nm cbs dev interval st))"
| r_enable: "reachable st \<Longrightarrow> reachable (snd (SensorTask_EnableSensor ty st))"
| r_disable: "reachable st \<Longrightarrow> reachable (snd (SensorTask_DisableSensor ty st))"
| r_interval: "reachable st \<Longrightarrow> reachable (snd (SensorTask_SetUpdateInterval ty interval st))"
| r_callback: "reachable st \<Longrightarrow> reachable (snd (SensorTask_RegisterEventCallback callback st))"
| r_sweep: "reachable st \<Longrightarrow> reachable (SensorTask_MainLoop_sweep ticks st)"
| r_history: "reachable st \<Longrightarrow> SensorTask_GetPrimaryHistory mutex_ok ty True st = Some (r, st')
              \<Longrightarrow> reachable st'"

subsection \<open>Notions used in the statements\<close>

text \<open>The event a status change hands to the callback: no data pointer, so zeroed data.\<close>

definition status_event :: "nat \<Rightarrow> SensorStatus_t \<Rightarrow> SensorEvent_t" where
  "status_event ty s =
     \<lparr>event_type = SENSOR_EVENT_STATUS_CHANGE, sensor_type = ty, event_data = zero_data,
      event_status = s\<rparr>"

text \<open>The instance as the deinit callback of kind \<open>ty\<close> leaves it, if there is one.\<close>

definition after_deinit :: "'d SensorTask \<Rightarrow> nat \<Rightarrow> 'd SensorInstance_t \<Rightarrow> 'd SensorInstance_t" where
  "after_deinit st ty sensor =
     (case deinit_func (callbacks st ty) of None \<Rightarrow> sensor | Some f \<Rightarrow> snd (f sensor))"

text \<open>
  An adapter that writes the reading and its own device state only: it leaves the kind,
  the enabled flag and the analytics block of the instance as they are.
\<close>

definition keeps_analytics :: "'d adapter \<Rightarrow> bool" where
  "keeps_analytics f \<longleftrightarrow>
     (\<forall>s. type (snd (f s)) = type s \<and> is_enabled (snd (f s)) = is_enabled s
          \<and> history (snd (f s)) = history s
          \<and> secondary_history (snd (f s)) = secondary_history s
          \<and> history_head (snd (f s)) = history_head s
          \<and> history_count (snd (f s)) = history_count s
          \<and> stats (snd (f s)) = stats s \<and> secondary_stats (snd (f s)) = secondary_stats s)"

text \<open>
  A sequence of successful reads of slot \<open>i\<close>, one call of \<^verbatim>\<open>SensorTask_UpdateSensor\<close> per
  clock value: the primary values that were read, oldest first, and the final state;
  \<open>None\<close> as soon as one read fails.
\<close>

fun feed :: "nat \<Rightarrow> 32 word list \<Rightarrow> 'd SensorTask \<Rightarrow> (real list \<times> 'd SensorTask) option" where
  "feed i [] st = Some ([], st)"
| "feed i (t # ts) st =
     (if fst (SensorTask_UpdateSensor i t st) then
        (case feed i ts (snd (SensorTask_UpdateSensor i t st)) of
           None \<Rightarrow> None
         | Some (vs, st') \<Rightarrow>
             Some (primary_value (sensors (snd (SensorTask_UpdateSensor i t st)) i) # vs, st'))
      else None)"

declare feed.simps [simp del]

text \<open>
  What a caller of \<^verbatim>\<open>SensorTask_GetPrimaryHistory\<close> with a valid out-pointer sees: the
  returned count and that many entries behind the returned pointer (none for NULL).
\<close>

definition primary_history :: "bool \<Rightarrow> nat \<Rightarrow> 'd SensorTask \<Rightarrow> (nat \<times> real list) option" where
  "primary_history mutex_ok ty st =
     (case SensorTask_GetPrimaryHistory mutex_ok ty True st of
        None \<Rightarrow> None
      | Some ((n, None), _) \<Rightarrow> Some (n, [])
      | Some ((n, Some buf), _) \<Rightarrow> Some (n, take n buf))"

text \<open>
  The circular buffer of an instance holds the last \<^verbatim>\<open>SENSOR_HISTORY_SIZE\<close> of the values
  \<open>ws\<close> written so far (oldest first), value number \<open>k\<close> at position
  \<open>k mod SENSOR_HISTORY_SIZE\<close>, with head and count as the writes leave them.
\<close>

definition ring_holds :: "real list \<Rightarrow> 'd SensorInstance_t \<Rightarrow> bool" where
  "ring_holds ws s \<longleftrightarrow>
     length (history s) = SENSOR_HISTORY_SIZE
     \<and> history_count s = min (length ws) SENSOR_HISTORY_SIZE
     \<and> history_head s = length ws mod SENSOR_HISTORY_SIZE
     \<and> (\<forall>k. length ws - SENSOR_HISTORY_SIZE \<le> k \<and> k < length ws
            \<longrightarrow> history s ! (k mod SENSOR_HISTORY_SIZE) = ws ! k)"

subsection \<open>Test adapters and test states\<close>

text \<open>
  A fake adapter whose device state is the script of the reads still to come: \<open>Some v\<close>
  is a successful read of \<open>v\<close> (as lux and as temperature, with a fixed humidity and smoke
  value), \<open>None\<close> a failed read; with the script used up every read fails. \<open>init\<close>
  succeeds, \<open>deinit\<close> drops the device.
\<close>

definition fake_init :: "real option list adapter" where
  "fake_init sensor = (True, sensor)"

definition fake_init_fails :: "real option list adapter" where
  "fake_init_fails sensor = (False, sensor)"

definition fake_read :: "real option list adapter" where
  "fake_read sensor =
     (case device_handle sensor of
        Some (Some v # vs) \<Rightarrow>
          (True, sensor\<lparr>data := (data sensor)\<lparr>data_values :=
                           \<lparr>gy30_lux = v, sht30_temp = v, sht30_humi = 50, smoke_ppm = 7\<rparr>\<rparr>,
                         device_handle := Some vs\<rparr>)
      | Some (None # vs) \<Rightarrow> (False, sensor\<lparr>device_handle := Some vs\<rparr>)
      | _ \<Rightarrow> (False, sensor))"

definition fake_deinit :: "real option list adapter" where
  "fake_deinit sensor = (True, sensor\<lparr>device_handle := None\<rparr>)"

definition fake_callbacks :: "real option list SensorCallbacks_t" where
  "fake_callbacks =
     \<lparr>init_func = Some fake_init, read_func = Some fake_read, deinit_func = Some fake_deinit,
      get_unit = Some ''lx''\<rparr>"

text \<open>After \<^verbatim>\<open>SensorTask_Init\<close> and the registration of an event callback.\<close>

definition demo_init :: "real option list SensorTask" where
  "demo_init = snd (SensorTask_RegisterEventCallback True (snd (SensorTask_Init True True boot_state)))"

text \<open>The fake light sensor registered with a script and an update interval.\<close>

definition demo_registered :: "real option list \<Rightarrow> 32 word \<Rightarrow> real option list SensorTask" where
  "demo_registered script interval =
     snd (SensorTask_RegisterSensor SENSOR_TYPE_GY30 ''GY30'' (Some fake_callbacks)
            (Some script) interval demo_init)"

definition demo_ready :: "real option list SensorTask" where
  "demo_ready = demo_registered [Some 10, Some 20, Some 30] 2000"

text \<open>The same sensor with an adapter whose \<open>init\<close> fails.\<close>

definition demo_badinit :: "real option list SensorTask" where
  "demo_badinit =
     snd (SensorTask_RegisterSensor SENSOR_TYPE_GY30 ''GY30''
            (Some (fake_callbacks\<lparr>init_func := Some fake_init_fails\<rparr>)) (Some []) 0 demo_init)"

text \<open>\<open>k\<close> sweeps of the scheduler with the clock standing at 0.\<close>

definition demo_sweeps :: "nat \<Rightarrow> 'd SensorTask \<Rightarrow> 'd SensorTask" where
  "demo_sweeps k st = ((SensorTask_MainLoop_sweep (\<lambda>_. (0, 0, 0))) ^^ k) st"

text \<open>
  The fields of a state that decide how the scheduler treats the fake light sensor:
  its script, error count and status, with update interval 0 and no other sensor enabled.
\<close>

definition gy30_run ::
  "real option list \<Rightarrow> 32 word \<Rightarrow> SensorStatus_t \<Rightarrow> real option list SensorTask \<Rightarrow> bool"
where
  "gy30_run script n s st \<longleftrightarrow>
     is_initialized st \<and> g_event_callback st \<and> callbacks st 1 = fake_callbacks
     \<and> type (sensors st 1) = 1 \<and> is_enabled (sensors st 1)
     \<and> device_handle (sensors st 1) = Some script \<and> update_interval_ms (sensors st 1) = 0
     \<and> \<not> is_enabled (sensors st 2) \<and> \<not> is_enabled (sensors st 3)
     \<and> error_count (sensors st 1) = n \<and> status (sensors st 1) = s"

text \<open>
  Test runs on the fake light sensor with update interval 0: one whose reads all fail,
  the state it reaches when the error count has just hit the soft threshold (there with
  the interval set back to two seconds), the state after ten sweeps, and one whose first
  read fails and whose second read delivers 10.
\<close>

definition demo_failing :: "real option list SensorTask" where
  "demo_failing = demo_registered [] 0"

definition demo_soft :: "real option list SensorTask" where
  "demo_soft = snd (SensorTask_SetUpdateInterval SENSOR_TYPE_GY30 2000 (demo_sweeps 5 demo_failing))"

definition demo_error :: "real option list SensorTask" where
  "demo_error = demo_sweeps 10 demo_failing"

definition demo_flaky :: "real option list SensorTask" where
  "demo_flaky = demo_sweeps 1 (demo_registered [None, Some 10] 0)"

text \<open>
  The fake light sensor after its first sweep with the script 10, 20, 30: the init and
  the first read have succeeded.
\<close>

definition demo_first :: "real option list SensorTask" where
  "demo_first = demo_sweeps 1 (demo_registered [Some 10, Some 20, Some 30] 0)"

section \<open>Properties\<close>

subsection \<open>Basic facts\<close>

lemma NotifyEvent_sensors [simp]: "sensors (SensorTask_NotifyEvent et ty d s st) = sensors st"
  by (simp add: SensorTask_NotifyEvent_def)

lemma NotifyEvent_callbacks [simp]: "callbacks (SensorTask_NotifyEvent et ty d s st) = callbacks st"
  by (simp add: SensorTask_NotifyEvent_def)

lemma NotifyEvent_is_initialized [simp]:
  "is_initialized (SensorTask_NotifyEvent et ty d s st) = is_initialized st"
  by (simp add: SensorTask_NotifyEvent_def)

lemma NotifyEvent_active [simp]:
  "active_sensor_count (SensorTask_NotifyEvent et ty d s st) = active_sensor_count st"
  by (simp add: SensorTask_NotifyEvent_def)

lemma NotifyEvent_callback [simp]:
  "g_event_callback (SensorTask_NotifyEvent et ty d s st) = g_event_callback st"
  by (simp add: SensorTask_NotifyEvent_def)

lemma upt_SENSOR_TYPE_MAX: "[0..<4] = [0, 1, 2, 3::nat]" "[Suc 0..<4] = [1, 2, 3::nat]"
  by (simp_all add: upt_rec)

lemma demo_init_reachable: "reachable demo_init"
  unfolding demo_init_def by (intro reachable.intros)

lemma demo_init_initialized: "is_initialized demo_init"
  by (simp add: demo_init_def SensorTask_RegisterEventCallback_def SensorTask_Init_def
        boot_state_def Let_def)

subsection \<open>The sentinel slot is never written after \<^verbatim>\<open>SensorTask_Init\<close>\<close>

lemma Init_sentinel:
  "status (sensors st 0) = SENSOR_STATUS_OFFLINE
   \<Longrightarrow> status (sensors (snd (SensorTask_Init m t st)) 0) = SENSOR_STATUS_OFFLINE"
  by (simp add: SensorTask_Init_def Let_def upt_SENSOR_TYPE_MAX SensorTask_Init_slot_def
        zero_instance_def)

lemma Enable_sentinel: "sensors (snd (SensorTask_EnableSensor ty st)) 0 = sensors st 0"
  by (simp add: SensorTask_EnableSensor_def Let_def)

lemma Disable_sentinel: "sensors (snd (SensorTask_DisableSensor ty st)) 0 = sensors st 0"
  by (simp add: SensorTask_DisableSensor_def Let_def)

lemma Register_sentinel:
  "sensors (snd (SensorTask_RegisterSensor ty nm cbs dev iv st)) 0 = sensors st 0"
  by (simp add: SensorTask_RegisterSensor_def SensorTask_EnableSensor_def Let_def split: option.split)

lemma SetUpdateInterval_sentinel:
  "sensors (snd (SensorTask_SetUpdateInterval ty ms st)) 0 = sensors st 0"
  by (simp add: SensorTask_SetUpdateInterval_def)

lemma HandleSensorError_sentinel:
  "i \<noteq> 0 \<Longrightarrow> sensors (SensorTask_HandleSensorError i st) 0 = sensors st 0"
  by (simp add: SensorTask_HandleSensorError_def Let_def set_status_def Disable_sentinel)

lemma InitializeSensor_sentinel:
  "i \<noteq> 0 \<Longrightarrow> sensors (snd (SensorTask_InitializeSensor i st)) 0 = sensors st 0"
  by (simp add: SensorTask_InitializeSensor_def Let_def split: option.split)

lemma UpdateSensor_sentinel:
  "i \<noteq> 0 \<Longrightarrow> sensors (snd (SensorTask_UpdateSensor i t st)) 0 = sensors st 0"
  by (simp add: SensorTask_UpdateSensor_def Let_def split: option.split)

lemma MainLoop_update_sentinel:
  "i \<noteq> 0 \<Longrightarrow> sensors (SensorTask_MainLoop_update i t1 t2 st) 0 = sensors st 0"
  by (simp add: SensorTask_MainLoop_update_def Let_def HandleSensorError_sentinel
        UpdateSensor_sentinel case_prod_beta)

lemma MainLoop_body_sentinel:
  "i \<noteq> 0 \<Longrightarrow> sensors (SensorTask_MainLoop_body i t0 t1 t2 st) 0 = sensors st 0"
  by (simp add: SensorTask_MainLoop_body_def Let_def HandleSensorError_sentinel
        MainLoop_update_sentinel InitializeSensor_sentinel case_prod_beta)

lemma MainLoop_sweep_sentinel: "sensors (SensorTask_MainLoop_sweep ticks st) 0 = sensors st 0"
  by (simp add: SensorTask_MainLoop_sweep_def upt_SENSOR_TYPE_MAX MainLoop_body_sentinel
        case_prod_beta)

lemma GetPrimaryHistory_sensors:
  "SensorTask_GetPrimaryHistory m ty h st = Some (r, st') \<Longrightarrow> sensors st' = sensors st"
  by (auto simp add: SensorTask_GetPrimaryHistory_def Let_def split: if_splits)

lemma reachable_sentinel_offline:
  "reachable st \<Longrightarrow> status (sensors st 0) = SENSOR_STATUS_OFFLINE"
proof (induction rule: reachable.induct)
  case r_boot
  show ?case by (simp add: boot_state_def zero_instance_def)
next
  case (r_init st m t)
  then show ?case by (simp add: Init_sentinel)
next
  case (r_history st m ty r st')
  then show ?case using GetPrimaryHistory_sensors [of m ty True st r st'] by simp
qed (simp_all add: Enable_sentinel Disable_sentinel Register_sentinel SetUpdateInterval_sentinel
       MainLoop_sweep_sentinel SensorTask_RegisterEventCallback_def)

subsection \<open>Registration leaves the analytics block alone\<close>

text \<open>
  Claim C9. \<^verbatim>\<open>SensorTask_RegisterSensor\<close> never modifies the analytics state of an
  instance: for every kind, every argument and every slot, the history buffer, the
  secondary history buffer, \<^verbatim>\<open>history_head\<close>, \<^verbatim>\<open>history_count\<close>, \<^verbatim>\<open>stats\<close> and
  \<^verbatim>\<open>secondary_stats\<close> are the same after the call as before it. Registering a kind that
  was used before therefore keeps its earlier history and statistics.
\<close>

theorem RegisterSensor_keeps_analytics:
  "history (sensors (snd (SensorTask_RegisterSensor ty nm cbs dev interval st)) i)
     = history (sensors st i)
   \<and> secondary_history (sensors (snd (SensorTask_RegisterSensor ty nm cbs dev interval st)) i)
       = secondary_history (sensors st i)
   \<and> history_head (sensors (snd (SensorTask_RegisterSensor ty nm cbs dev interval st)) i)
       = history_head (sensors st i)
   \<and> history_count (sensors (snd (SensorTask_RegisterSensor ty nm cbs dev interval st)) i)
       = history_count (sensors st i)
   \<and> stats (sensors (snd (SensorTask_RegisterSensor ty nm cbs dev interval st)) i)
       = stats (sensors st i)
   \<and> secondary_stats (sensors (snd (SensorTask_RegisterSensor ty nm cbs dev interval st)) i)
       = secondary_stats (sensors st i)"
  by (simp add: SensorTask_RegisterSensor_def SensorTask_EnableSensor_def Let_def
           split: option.split)

subsection \<open>The status query accepts the sentinel kind\<close>

text \<open>
  Claim C10. In every state reached after \<^verbatim>\<open>SensorTask_Init\<close> has succeeded,
  \<^verbatim>\<open>SensorTask_GetSensorStatus\<close> accepts the kind \<^verbatim>\<open>SENSOR_TYPE_NONE\<close>: with a non-NULL
  out-pointer (and the data mutex obtained) it returns true and writes the status of the
  sentinel slot, which is Offline. \<^verbatim>\<open>SensorTask_GetSensorData\<close>,
  \<^verbatim>\<open>SensorTask_EnableSensor\<close>, \<^verbatim>\<open>SensorTask_DisableSensor\<close> and
  \<^verbatim>\<open>SensorTask_SetUpdateInterval\<close> all return false for that kind.
\<close>

theorem GetSensorStatus_accepts_none:
  assumes "reachable st" and "is_initialized st"
  shows "SensorTask_GetSensorStatus True SENSOR_TYPE_NONE (Some out) st
           = (True, Some SENSOR_STATUS_OFFLINE)
         \<and> fst (SensorTask_GetSensorData mutex_ok SENSOR_TYPE_NONE data_out st) = False
         \<and> fst (SensorTask_EnableSensor SENSOR_TYPE_NONE st) = False
         \<and> fst (SensorTask_DisableSensor SENSOR_TYPE_NONE st) = False
         \<and> fst (SensorTask_SetUpdateInterval SENSOR_TYPE_NONE interval_ms st) = False"
  using assms reachable_sentinel_offline [of st]
  by (simp add: SensorTask_GetSensorStatus_def SensorTask_GetSensorData_def
        SensorTask_EnableSensor_def SensorTask_DisableSensor_def SensorTask_SetUpdateInterval_def)

theorem GetSensorStatus_accepts_none_witness:
  "reachable demo_init \<and> is_initialized demo_init
   \<and> SensorTask_GetSensorStatus True SENSOR_TYPE_NONE (Some SENSOR_STATUS_ERROR) demo_init
       = (True, Some SENSOR_STATUS_OFFLINE)
   \<and> fst (SensorTask_GetSensorData True SENSOR_TYPE_NONE (Some zero_data) demo_init) = False
   \<and> fst (SensorTask_EnableSensor SENSOR_TYPE_NONE demo_init) = False
   \<and> fst (SensorTask_DisableSensor SENSOR_TYPE_NONE demo_init) = False
   \<and> fst (SensorTask_SetUpdateInterval SENSOR_TYPE_NONE 2000 demo_init) = False"
  using GetSensorStatus_accepts_none [OF demo_init_reachable demo_init_initialized,
          of SENSOR_STATUS_ERROR True "Some zero_data" 2000]
        demo_init_reachable demo_init_initialized
  by simp

subsection \<open>The fault handler\<close>

lemma HandleSensorError_plain:
  assumes "error_count (sensors st i) + 1 \<noteq> 5" and "error_count (sensors st i) + 1 \<noteq> 10"
  shows "SensorTask_HandleSensorError i st
           = st\<lparr>sensors := (sensors st)(i := (sensors st i)\<lparr>error_count :=
                                                  error_count (sensors st i) + 1\<rparr>)\<rparr>"
  using assms by (simp add: SensorTask_HandleSensorError_def Let_def)

lemma HandleSensorError_soft:
  assumes "error_count (sensors st i) + 1 = 5"
  shows "SensorTask_HandleSensorError i st
           = st\<lparr>sensors := (sensors st)(i := (sensors st i)\<lparr>error_count := 5,
                                                  status := SENSOR_STATUS_INITIALIZING\<rparr>)\<rparr>"
  using assms by (simp add: SensorTask_HandleSensorError_def Let_def set_status_def)

lemma HandleSensorError_hard:
  assumes "error_count (sensors st i) + 1 = 10"
    and "is_initialized st" and "type (sensors st i) = i" and "0 < i" and "i < SENSOR_TYPE_MAX"
    and "is_enabled (sensors st i)"
  shows "SensorTask_HandleSensorError i st
           = st\<lparr>sensors := (sensors st)
                   (i := (after_deinit st i ((sensors st i)\<lparr>error_count := 10\<rparr>))
                           \<lparr>is_enabled := False, status := SENSOR_STATUS_ERROR\<rparr>),
                 active_sensor_count := active_sensor_count st - 1,
                 delivered := delivered st @
                   (if g_event_callback st
                    then [status_event i SENSOR_STATUS_OFFLINE,
                          status_event (type (after_deinit st i ((sensors st i)\<lparr>error_count := 10\<rparr>)))
                            SENSOR_STATUS_ERROR]
                    else [])\<rparr>"
  using assms
  by (simp add: SensorTask_HandleSensorError_def Let_def set_status_def SensorTask_DisableSensor_def
        SensorTask_NotifyEvent_def after_deinit_def status_event_def)

subsection \<open>The scheduler on the fake light sensor\<close>

lemma MainLoop_body_disabled:
  "\<not> is_enabled (sensors st i) \<Longrightarrow> SensorTask_MainLoop_body i t0 t1 t2 st = st"
  by (simp add: SensorTask_MainLoop_body_def)

lemma MainLoop_sweep_unfold:
  "SensorTask_MainLoop_sweep ticks st
     = SensorTask_MainLoop_body 3 (fst (ticks 3)) (fst (snd (ticks 3))) (snd (snd (ticks 3)))
         (SensorTask_MainLoop_body 2 (fst (ticks 2)) (fst (snd (ticks 2))) (snd (snd (ticks 2)))
            (SensorTask_MainLoop_body 1 (fst (ticks 1)) (fst (snd (ticks 1))) (snd (snd (ticks 1))) st))"
  by (simp add: SensorTask_MainLoop_sweep_def upt_SENSOR_TYPE_MAX case_prod_beta)

lemma demo_sweeps_step:
  "demo_sweeps 0 st = st"
  "demo_sweeps (Suc 0) st = SensorTask_MainLoop_sweep (\<lambda>_. (0, 0, 0)) st"
  "demo_sweeps 2 st = SensorTask_MainLoop_sweep (\<lambda>_. (0, 0, 0)) (demo_sweeps (Suc 0) st)"
  "demo_sweeps 3 st = SensorTask_MainLoop_sweep (\<lambda>_. (0, 0, 0)) (demo_sweeps 2 st)"
  "demo_sweeps 4 st = SensorTask_MainLoop_sweep (\<lambda>_. (0, 0, 0)) (demo_sweeps 3 st)"
  "demo_sweeps 5 st = SensorTask_MainLoop_sweep (\<lambda>_. (0, 0, 0)) (demo_sweeps 4 st)"
  "demo_sweeps 6 st = SensorTask_MainLoop_sweep (\<lambda>_. (0, 0, 0)) (demo_sweeps 5 st)"
  "demo_sweeps 7 st = SensorTask_MainLoop_sweep (\<lambda>_. (0, 0, 0)) (demo_sweeps 6 st)"
  "demo_sweeps 8 st = SensorTask_MainLoop_sweep (\<lambda>_. (0, 0, 0)) (demo_sweeps 7 st)"
  "demo_sweeps 9 st = SensorTask_MainLoop_sweep (\<lambda>_. (0, 0, 0)) (demo_sweeps 8 st)"
  "demo_sweeps 10 st = SensorTask_MainLoop_sweep (\<lambda>_. (0, 0, 0)) (demo_sweeps 9 st)"
  by (simp_all add: demo_sweeps_def eval_nat_numeral)

lemma demo_init_fields:
  "g_event_callback demo_init" "delivered demo_init = []" "active_sensor_count demo_init = 0"
  "\<not> is_enabled (sensors demo_init i)" "type (sensors demo_init 1) = 1"
  by (simp_all add: demo_init_def SensorTask_RegisterEventCallback_def SensorTask_Init_def
        boot_state_def Let_def upt_SENSOR_TYPE_MAX SensorTask_Init_slot_def zero_instance_def)

lemma demo_registered_run:
  "gy30_run script 0 SENSOR_STATUS_INITIALIZING (demo_registered script 0)"
  using demo_init_initialized demo_init_fields(1,5) demo_init_fields(4) [of 2]
    demo_init_fields(4) [of 3]
  by (simp add: gy30_run_def demo_registered_def SensorTask_RegisterSensor_def
        SensorTask_EnableSensor_def Let_def fake_callbacks_def)

lemma device_handle_same:
  assumes "device_handle (sensors st i) = d"
  shows "st\<lparr>sensors := (sensors st)(i := (sensors st i)\<lparr>device_handle := d\<rparr>)\<rparr> = st"
proof -
  have "(sensors st i)\<lparr>device_handle := d\<rparr> = sensors st i"
    using assms by simp
  then show ?thesis by simp
qed

lemma gy30_read_fails:
  assumes "gy30_run script n s st" and "script = [] \<or> hd script = None"
  shows "SensorTask_UpdateSensor 1 t st
           = (False, st\<lparr>sensors := (sensors st)(1 := (sensors st 1)\<lparr>device_handle :=
                                                        Some (tl script)\<rparr>)\<rparr>)"
proof (cases script)
  case Nil
  with assms(1) have "device_handle (sensors st 1) = Some (tl script)"
    by (simp add: gy30_run_def)
  then have "st\<lparr>sensors := (sensors st)(1 := (sensors st 1)\<lparr>device_handle :=
                                                Some (tl script)\<rparr>)\<rparr> = st"
    by (rule device_handle_same)
  moreover have "SensorTask_UpdateSensor 1 t st = (False, st)"
    using assms(1) Nil
    by (simp add: gy30_run_def SensorTask_UpdateSensor_def Let_def fake_callbacks_def
          fake_read_def)
  ultimately show ?thesis by simp
next
  case (Cons a rest)
  with assms show ?thesis
    by (simp add: gy30_run_def SensorTask_UpdateSensor_def Let_def fake_callbacks_def
          fake_read_def)
qed

lemma gy30_run_after_read:
  assumes "gy30_run script n s st"
  shows "gy30_run (tl script) n s
           (st\<lparr>sensors := (sensors st)(1 := (sensors st 1)\<lparr>device_handle := Some (tl script)\<rparr>)\<rparr>)"
  using assms by (simp add: gy30_run_def)

lemma gy30_update_fails:
  assumes "gy30_run script n s st" and "script = [] \<or> hd script = None"
  shows "SensorTask_MainLoop_update 1 t1 t2 st
           = SensorTask_HandleSensorError 1
               (st\<lparr>sensors := (sensors st)(1 := (sensors st 1)\<lparr>device_handle :=
                                                      Some (tl script)\<rparr>)\<rparr>)"
  using assms(1) gy30_read_fails [OF assms, of t2]
  by (simp add: SensorTask_MainLoop_update_def gy30_run_def)

lemma gy30_run_after_init:
  assumes "gy30_run script n SENSOR_STATUS_INITIALIZING st"
  shows "gy30_run script n SENSOR_STATUS_ONLINE
           (SensorTask_NotifyEvent SENSOR_EVENT_STATUS_CHANGE 1 None SENSOR_STATUS_ONLINE
              (st\<lparr>sensors := (sensors st)(1 := (sensors st 1)\<lparr>status := SENSOR_STATUS_ONLINE,
                                                                last_update_time := t0\<rparr>)\<rparr>))"
  using assms by (simp add: gy30_run_def)

lemma gy30_body_initializing:
  assumes "gy30_run script n SENSOR_STATUS_INITIALIZING st"
  shows "SensorTask_MainLoop_body 1 t0 t1 t2 st
           = SensorTask_MainLoop_update 1 t1 t2
               (SensorTask_NotifyEvent SENSOR_EVENT_STATUS_CHANGE 1 None SENSOR_STATUS_ONLINE
                  (st\<lparr>sensors := (sensors st)(1 := (sensors st 1)\<lparr>status := SENSOR_STATUS_ONLINE,
                                                                    last_update_time := t0\<rparr>)\<rparr>))"
  using assms
  by (simp add: SensorTask_MainLoop_body_def SensorTask_InitializeSensor_def gy30_run_def
        fake_callbacks_def fake_init_def)

lemma gy30_body_online:
  assumes "gy30_run script n SENSOR_STATUS_ONLINE st"
  shows "SensorTask_MainLoop_body 1 t0 t1 t2 st = SensorTask_MainLoop_update 1 t1 t2 st"
  using assms by (simp add: SensorTask_MainLoop_body_def gy30_run_def)

lemma gy30_handler:
  assumes "gy30_run script n SENSOR_STATUS_ONLINE st" and "n + 1 \<noteq> 10"
  shows "gy30_run script (n + 1)
           (if n + 1 = 5 then SENSOR_STATUS_INITIALIZING else SENSOR_STATUS_ONLINE)
           (SensorTask_HandleSensorError 1 st)"
proof (cases "n + 1 = 5")
  case True
  with assms show ?thesis
    by (simp add: gy30_run_def HandleSensorError_soft)
next
  case False
  with assms show ?thesis
    by (simp add: gy30_run_def HandleSensorError_plain)
qed

lemma gy30_update_fail:
  assumes "gy30_run script n SENSOR_STATUS_ONLINE st" and "script = [] \<or> hd script = None"
    and "n + 1 \<noteq> 10"
  shows "gy30_run (tl script) (n + 1)
           (if n + 1 = 5 then SENSOR_STATUS_INITIALIZING else SENSOR_STATUS_ONLINE)
           (SensorTask_MainLoop_update 1 t1 t2 st)"
  unfolding gy30_update_fails [OF assms(1,2)]
  by (rule gy30_handler [OF gy30_run_after_read [OF assms(1)] assms(3)])

lemma gy30_body_fail:
  assumes "gy30_run script n s st" and "s = SENSOR_STATUS_INITIALIZING \<or> s = SENSOR_STATUS_ONLINE"
    and "script = [] \<or> hd script = None" and "n + 1 \<noteq> 10"
  shows "gy30_run (tl script) (n + 1)
           (if n + 1 = 5 then SENSOR_STATUS_INITIALIZING else SENSOR_STATUS_ONLINE)
           (SensorTask_MainLoop_body 1 t0 t1 t2 st)"
proof (cases "s = SENSOR_STATUS_INITIALIZING")
  case True
  with assms(1) have r: "gy30_run script n SENSOR_STATUS_INITIALIZING st" by simp
  show ?thesis
    unfolding gy30_body_initializing [OF r]
    by (rule gy30_update_fail [OF gy30_run_after_init [OF r] assms(3,4)])
next
  case False
  with assms have r: "gy30_run script n SENSOR_STATUS_ONLINE st" by simp
  show ?thesis
    unfolding gy30_body_online [OF r]
    by (rule gy30_update_fail [OF r assms(3,4)])
qed

lemma gy30_sweep_is_body:
  assumes "\<not> is_enabled (sensors (SensorTask_MainLoop_body 1 (fst (ticks 1)) (fst (snd (ticks 1)))
                                    (snd (snd (ticks 1))) st) 2)"
    and "\<not> is_enabled (sensors (SensorTask_MainLoop_body 1 (fst (ticks 1)) (fst (snd (ticks 1)))
                                    (snd (snd (ticks 1))) st) 3)"
  shows "SensorTask_MainLoop_sweep ticks st
           = SensorTask_MainLoop_body 1 (fst (ticks 1)) (fst (snd (ticks 1))) (snd (snd (ticks 1))) st"
  using assms by (simp add: MainLoop_sweep_unfold MainLoop_body_disabled)

lemma gy30_sweep_fail:
  assumes "gy30_run script n s st" and "s = SENSOR_STATUS_INITIALIZING \<or> s = SENSOR_STATUS_ONLINE"
    and "script = [] \<or> hd script = None" and "n + 1 \<noteq> 10"
  shows "gy30_run (tl script) (n + 1)
           (if n + 1 = 5 then SENSOR_STATUS_INITIALIZING else SENSOR_STATUS_ONLINE)
           (SensorTask_MainLoop_sweep ticks st)"
proof -
  let ?st1 = "SensorTask_MainLoop_body 1 (fst (ticks 1)) (fst (snd (ticks 1))) (snd (snd (ticks 1))) st"
  have r: "gy30_run (tl script) (n + 1)
             (if n + 1 = 5 then SENSOR_STATUS_INITIALIZING else SENSOR_STATUS_ONLINE) ?st1"
    using assms by (rule gy30_body_fail)
  then have "\<not> is_enabled (sensors ?st1 2)" and "\<not> is_enabled (sensors ?st1 3)"
    by (simp_all add: gy30_run_def)
  then have "SensorTask_MainLoop_sweep ticks st = ?st1"
    by (rule gy30_sweep_is_body)
  with r show ?thesis by simp
qed

lemma run0: "gy30_run [] 0 SENSOR_STATUS_INITIALIZING (demo_sweeps 0 demo_failing)"
  using demo_registered_run [of "[]"] by (simp add: demo_sweeps_step demo_failing_def)

lemma run1: "gy30_run [] 1 SENSOR_STATUS_ONLINE (demo_sweeps 1 demo_failing)"
  using gy30_sweep_fail [OF run0, of "\<lambda>_. (0, 0, 0)"] by (simp add: demo_sweeps_step)

lemma run2: "gy30_run [] 2 SENSOR_STATUS_ONLINE (demo_sweeps 2 demo_failing)"
  using gy30_sweep_fail [OF run1, of "\<lambda>_. (0, 0, 0)"] by (simp add: demo_sweeps_step)

lemma run3: "gy30_run [] 3 SENSOR_STATUS_ONLINE (demo_sweeps 3 demo_failing)"
  using gy30_sweep_fail [OF run2, of "\<lambda>_. (0, 0, 0)"] by (simp add: demo_sweeps_step)

lemma run4: "gy30_run [] 4 SENSOR_STATUS_ONLINE (demo_sweeps 4 demo_failing)"
  using gy30_sweep_fail [OF run3, of "\<lambda>_. (0, 0, 0)"] by (simp add: demo_sweeps_step)

lemma run5: "gy30_run [] 5 SENSOR_STATUS_INITIALIZING (demo_sweeps 5 demo_failing)"
  using gy30_sweep_fail [OF run4, of "\<lambda>_. (0, 0, 0)"] by (simp add: demo_sweeps_step)

lemma run6: "gy30_run [] 6 SENSOR_STATUS_ONLINE (demo_sweeps 6 demo_failing)"
  using gy30_sweep_fail [OF run5, of "\<lambda>_. (0, 0, 0)"] by (simp add: demo_sweeps_step)

lemma run7: "gy30_run [] 7 SENSOR_STATUS_ONLINE (demo_sweeps 7 demo_failing)"
  using gy30_sweep_fail [OF run6, of "\<lambda>_. (0, 0, 0)"] by (simp add: demo_sweeps_step)

lemma run8: "gy30_run [] 8 SENSOR_STATUS_ONLINE (demo_sweeps 8 demo_failing)"
  using gy30_sweep_fail [OF run7, of "\<lambda>_. (0, 0, 0)"] by (simp add: demo_sweeps_step)

lemma run9: "gy30_run [] 9 SENSOR_STATUS_ONLINE (demo_sweeps 9 demo_failing)"
  using gy30_sweep_fail [OF run8, of "\<lambda>_. (0, 0, 0)"] by (simp add: demo_sweeps_step)


lemma gy30_sweep_hard:
  assumes "gy30_run [] 9 SENSOR_STATUS_ONLINE st"
  shows "SensorTask_MainLoop_sweep ticks st = SensorTask_HandleSensorError 1 st"
proof -
  have "device_handle (sensors st 1) = Some (tl [])"
    using assms by (simp add: gy30_run_def)
  then have "st\<lparr>sensors := (sensors st)(1 := (sensors st 1)\<lparr>device_handle := Some (tl [])\<rparr>)\<rparr> = st"
    by (rule device_handle_same)
  then have u: "SensorTask_MainLoop_update 1 t1 t2 st = SensorTask_HandleSensorError 1 st" for t1 t2
    using gy30_update_fails [OF assms, of t1 t2] by simp
  have h: "SensorTask_HandleSensorError 1 st
             = st\<lparr>sensors := (sensors st)
                     (1 := (after_deinit st 1 ((sensors st 1)\<lparr>error_count := 10\<rparr>))
                             \<lparr>is_enabled := False, status := SENSOR_STATUS_ERROR\<rparr>),
                   active_sensor_count := active_sensor_count st - 1,
                   delivered := delivered st @
                     (if g_event_callback st
                      then [status_event 1 SENSOR_STATUS_OFFLINE,
                            status_event (type (after_deinit st 1 ((sensors st 1)\<lparr>error_count := 10\<rparr>)))
                              SENSOR_STATUS_ERROR]
                      else [])\<rparr>"
    using assms by (intro HandleSensorError_hard) (simp_all add: gy30_run_def)
  have b: "SensorTask_MainLoop_body 1 t0 t1 t2 st = SensorTask_HandleSensorError 1 st" for t0 t1 t2
    unfolding gy30_body_online [OF assms] by (rule u)
  have e: "\<not> is_enabled (sensors (SensorTask_HandleSensorError 1 st) 2)"
    "\<not> is_enabled (sensors (SensorTask_HandleSensorError 1 st) 3)"
    using assms unfolding h by (simp_all add: gy30_run_def)
  have "SensorTask_MainLoop_sweep ticks st
          = SensorTask_MainLoop_body 1 (fst (ticks 1)) (fst (snd (ticks 1))) (snd (snd (ticks 1))) st"
    by (rule gy30_sweep_is_body; unfold b; fact e)
  then show ?thesis unfolding b .
qed

subsection \<open>Facts about the test states\<close>

lemma demo_error_eq: "demo_error = SensorTask_HandleSensorError 1 (demo_sweeps 9 demo_failing)"
  unfolding demo_error_def demo_sweeps_step(11) by (rule gy30_sweep_hard [OF run9])

lemma demo_error_fields:
  "is_initialized demo_error" "type (sensors demo_error 1) = 1"
  "status (sensors demo_error 1) = SENSOR_STATUS_ERROR"
  "\<not> is_enabled (sensors demo_error 1)" "error_count (sensors demo_error 1) = 10"
proof -
  let ?st = "demo_sweeps 9 demo_failing"
  have h: "demo_error
             = ?st\<lparr>sensors := (sensors ?st)
                     (1 := (after_deinit ?st 1 ((sensors ?st 1)\<lparr>error_count := 10\<rparr>))
                             \<lparr>is_enabled := False, status := SENSOR_STATUS_ERROR\<rparr>),
                   active_sensor_count := active_sensor_count ?st - 1,
                   delivered := delivered ?st @
                     (if g_event_callback ?st
                      then [status_event 1 SENSOR_STATUS_OFFLINE,
                            status_event (type (after_deinit ?st 1 ((sensors ?st 1)\<lparr>error_count := 10\<rparr>)))
                              SENSOR_STATUS_ERROR]
                      else [])\<rparr>"
    unfolding demo_error_eq using run9
    by (intro HandleSensorError_hard) (simp_all add: gy30_run_def)
  show "is_initialized demo_error" "type (sensors demo_error 1) = 1"
    "status (sensors demo_error 1) = SENSOR_STATUS_ERROR"
    "\<not> is_enabled (sensors demo_error 1)" "error_count (sensors demo_error 1) = 10"
    unfolding h using run9
    by (simp_all add: gy30_run_def after_deinit_def fake_callbacks_def fake_deinit_def)
qed

lemma demo_ready_fields:
  "is_initialized demo_ready" "is_enabled (sensors demo_ready 1)"
  "callbacks demo_ready 1 = fake_callbacks"
  "device_handle (sensors demo_ready 1) = Some [Some 10, Some 20, Some 30]"
  "status (sensors demo_ready 1) = SENSOR_STATUS_INITIALIZING"
  using demo_init_initialized demo_init_fields
  by (simp_all add: demo_ready_def demo_registered_def SensorTask_RegisterSensor_def
        SensorTask_EnableSensor_def Let_def fake_callbacks_def)

lemma gy30_run_fields:
  assumes "gy30_run script n s st"
  shows "is_initialized st" "g_event_callback st" "callbacks st 1 = fake_callbacks"
    "type (sensors st 1) = 1" "is_enabled (sensors st 1)"
    "device_handle (sensors st 1) = Some script" "update_interval_ms (sensors st 1) = 0"
    "error_count (sensors st 1) = n" "status (sensors st 1) = s"
  using assms by (simp_all add: gy30_run_def)

lemma gy30_read_ok:
  assumes "gy30_run (Some v # rest) n s st"
  shows "fst (SensorTask_UpdateSensor 1 t st)"
  using assms
  by (simp add: gy30_run_def SensorTask_UpdateSensor_def Let_def fake_callbacks_def fake_read_def)

lemma demo_flaky_run: "gy30_run [Some 10] 1 SENSOR_STATUS_ONLINE demo_flaky"
  using gy30_sweep_fail [OF demo_registered_run [of "[None, Some 10]"], of "\<lambda>_. (0, 0, 0)"]
  by (simp add: demo_flaky_def demo_sweeps_step)

lemma demo_soft_fields:
  "is_initialized demo_soft" "is_enabled (sensors demo_soft 1)"
  "status (sensors demo_soft 1) = SENSOR_STATUS_INITIALIZING"
  "error_count (sensors demo_soft 1) = 5" "type (sensors demo_soft 1) = 1"
  "callbacks demo_soft 1 = fake_callbacks" "update_interval_ms (sensors demo_soft 1) = 2000"
  using gy30_run_fields [OF run5]
  by (simp_all add: demo_soft_def SensorTask_SetUpdateInterval_def)

lemma demo_soft_init:
  "fst (SensorTask_InitializeSensor 1 demo_soft)"
  "error_count (sensors (snd (SensorTask_InitializeSensor 1 demo_soft)) 1) = 5"
  "update_interval_ms (sensors (snd (SensorTask_InitializeSensor 1 demo_soft)) 1) = 2000"
  using demo_soft_fields
  by (simp_all add: SensorTask_InitializeSensor_def Let_def fake_callbacks_def fake_init_def)

lemma demo_badinit_fields:
  "is_initialized demo_badinit" "type (sensors demo_badinit 1) = 1"
  "is_enabled (sensors demo_badinit 1)"
  "status (sensors demo_badinit 1) = SENSOR_STATUS_INITIALIZING"
  "error_count (sensors demo_badinit 1) = 0"
  "\<not> fst (SensorTask_InitializeSensor 1 demo_badinit)"
  "error_count (sensors (snd (SensorTask_InitializeSensor 1 demo_badinit)) 1) = 0"
  using demo_init_initialized demo_init_fields
  by (simp_all add: demo_badinit_def SensorTask_RegisterSensor_def SensorTask_EnableSensor_def
        Let_def fake_callbacks_def SensorTask_InitializeSensor_def fake_init_fails_def)

lemma run1_read:
  "\<not> fst (SensorTask_UpdateSensor 1 0 (demo_sweeps 1 demo_failing))"
  "snd (SensorTask_UpdateSensor 1 0 (demo_sweeps 1 demo_failing)) = demo_sweeps 1 demo_failing"
  using gy30_read_fails [OF run1, of 0] device_handle_same [of "demo_sweeps 1 demo_failing" 1 "Some []"]
    gy30_run_fields [OF run1]
  by simp_all

subsection \<open>Steps of the scheduler\<close>

lemma MainLoop_body_init_fails:
  assumes "is_enabled (sensors st i)" and "status (sensors st i) = SENSOR_STATUS_INITIALIZING"
    and "\<not> fst (SensorTask_InitializeSensor i st)"
  shows "SensorTask_MainLoop_body i t0 t1 t2 st
           = SensorTask_HandleSensorError i (snd (SensorTask_InitializeSensor i st))"
  using assms by (simp add: SensorTask_MainLoop_body_def case_prod_beta)

lemma MainLoop_body_read_fails:
  assumes "is_enabled (sensors st i)" and "status (sensors st i) \<noteq> SENSOR_STATUS_INITIALIZING"
    and "update_interval_ms (sensors st i) \<le> t1 - last_update_time (sensors st i)"
    and "\<not> fst (SensorTask_UpdateSensor i t2 st)"
  shows "SensorTask_MainLoop_body i t0 t1 t2 st
           = SensorTask_HandleSensorError i (snd (SensorTask_UpdateSensor i t2 st))"
  using assms
  by (simp add: SensorTask_MainLoop_body_def SensorTask_MainLoop_update_def case_prod_beta)

lemma UpdateSensor_history_frame [simp]:
  "type (SensorTask_UpdateSensor_history p q x) = type x"
  "is_enabled (SensorTask_UpdateSensor_history p q x) = is_enabled x"
  "error_count (SensorTask_UpdateSensor_history p q x) = error_count x"
  "status (SensorTask_UpdateSensor_history p q x) = status x"
  "data (SensorTask_UpdateSensor_history p q x) = data x"
  "stats (SensorTask_UpdateSensor_history p q x) = stats x"
  "secondary_stats (SensorTask_UpdateSensor_history p q x) = secondary_stats x"
  by (simp_all add: SensorTask_UpdateSensor_history_def Let_def)

lemma UpdateSensor_stats_frame [simp]:
  "type (SensorTask_UpdateSensor_stats p q x) = type x"
  "is_enabled (SensorTask_UpdateSensor_stats p q x) = is_enabled x"
  "error_count (SensorTask_UpdateSensor_stats p q x) = error_count x"
  "status (SensorTask_UpdateSensor_stats p q x) = status x"
  "data (SensorTask_UpdateSensor_stats p q x) = data x"
  "history (SensorTask_UpdateSensor_stats p q x) = history x"
  "secondary_history (SensorTask_UpdateSensor_stats p q x) = secondary_history x"
  "history_head (SensorTask_UpdateSensor_stats p q x) = history_head x"
  "history_count (SensorTask_UpdateSensor_stats p q x) = history_count x"
  by (simp_all add: SensorTask_UpdateSensor_stats_def Let_def case_prod_beta)

lemma UpdateSensor_locked_frame [simp]:
  "type (SensorTask_UpdateSensor_locked t x) = type x"
  "is_enabled (SensorTask_UpdateSensor_locked t x) = is_enabled x"
  "error_count (SensorTask_UpdateSensor_locked t x) = 0"
  "status (SensorTask_UpdateSensor_locked t x) = status x"
  by (simp_all add: SensorTask_UpdateSensor_locked_def Let_def)

lemma UpdateSensor_ok:
  assumes "fst (SensorTask_UpdateSensor i t st)"
  shows "\<exists>f. read_func (callbacks st (type (sensors st i))) = Some f
             \<and> fst (f (sensors st i)) \<and> type (sensors st i) < SENSOR_TYPE_MAX
             \<and> snd (SensorTask_UpdateSensor i t st)
                 = st\<lparr>sensors := (sensors st)
                     (i := SensorTask_UpdateSensor_locked t (snd (f (sensors st i))))\<rparr>"
proof (cases "type (sensors st i) \<ge> SENSOR_TYPE_MAX")
  case True
  with assms show ?thesis by (simp add: SensorTask_UpdateSensor_def)
next
  case False
  show ?thesis
  proof (cases "read_func (callbacks st (type (sensors st i)))")
    case None
    with assms False show ?thesis by (simp add: SensorTask_UpdateSensor_def)
  next
    case (Some f)
    with assms False have "fst (f (sensors st i))"
      by (simp add: SensorTask_UpdateSensor_def Let_def split: if_splits)
    with Some False show ?thesis
      by (simp add: SensorTask_UpdateSensor_def Let_def)
  qed
qed

lemma UpdateSensor_ok_error_count:
  assumes "fst (SensorTask_UpdateSensor i t st)"
  shows "error_count (sensors (snd (SensorTask_UpdateSensor i t st)) i) = 0"
  using UpdateSensor_ok [OF assms] by auto

lemma MainLoop_body_read_ok:
  assumes "is_enabled (sensors st i)" and "status (sensors st i) \<noteq> SENSOR_STATUS_INITIALIZING"
    and "update_interval_ms (sensors st i) \<le> t1 - last_update_time (sensors st i)"
    and "fst (SensorTask_UpdateSensor i t2 st)"
  shows "sensors (SensorTask_MainLoop_body i t0 t1 t2 st) i
           = (sensors (snd (SensorTask_UpdateSensor i t2 st)) i)\<lparr>last_update_time := t1\<rparr>"
  using assms
  by (simp add: SensorTask_MainLoop_body_def SensorTask_MainLoop_update_def case_prod_beta Let_def)

lemma InitializeSensor_frame:
  "callbacks (snd (SensorTask_InitializeSensor i st)) = callbacks st"
  "is_initialized (snd (SensorTask_InitializeSensor i st)) = is_initialized st"
  "j \<noteq> i \<Longrightarrow> sensors (snd (SensorTask_InitializeSensor i st)) j = sensors st j"
  by (simp_all add: SensorTask_InitializeSensor_def Let_def split: option.split)

lemma MainLoop_body_init_ok:
  assumes "is_enabled (sensors st i)" and "status (sensors st i) = SENSOR_STATUS_INITIALIZING"
    and "fst (SensorTask_InitializeSensor i st)"
    and "\<not> update_interval_ms (sensors (snd (SensorTask_InitializeSensor i st)) i) \<le> t1 - t0"
  shows "sensors (SensorTask_MainLoop_body i t0 t1 t2 st) i
           = (sensors (snd (SensorTask_InitializeSensor i st)) i)
               \<lparr>status := SENSOR_STATUS_ONLINE, last_update_time := t0\<rparr>"
  using assms
  by (simp add: SensorTask_MainLoop_body_def SensorTask_MainLoop_update_def case_prod_beta Let_def)

lemma MainLoop_update_read_fails:
  assumes "update_interval_ms (sensors s i) \<le> t1 - last_update_time (sensors s i)"
    and "\<not> fst (SensorTask_UpdateSensor i t2 s)"
  shows "SensorTask_MainLoop_update i t1 t2 s
           = SensorTask_HandleSensorError i (snd (SensorTask_UpdateSensor i t2 s))"
  using assms by (simp add: SensorTask_MainLoop_update_def case_prod_beta)

lemma MainLoop_body_init_ok_update:
  assumes "is_enabled (sensors st i)" and "status (sensors st i) = SENSOR_STATUS_INITIALIZING"
    and "fst (SensorTask_InitializeSensor i st)"
  shows "SensorTask_MainLoop_body i t0 t1 t2 st
           = SensorTask_MainLoop_update i t1 t2
               (SensorTask_NotifyEvent SENSOR_EVENT_STATUS_CHANGE i None SENSOR_STATUS_ONLINE
                  ((snd (SensorTask_InitializeSensor i st))
                     \<lparr>sensors := (sensors (snd (SensorTask_InitializeSensor i st)))
                        (i := (sensors (snd (SensorTask_InitializeSensor i st)) i)
                                \<lparr>status := SENSOR_STATUS_ONLINE, last_update_time := t0\<rparr>)\<rparr>))"
  using assms by (simp add: SensorTask_MainLoop_body_def case_prod_beta Let_def)

lemma MainLoop_body_init_ok_read_fails:
  assumes "is_enabled (sensors st i)" and "status (sensors st i) = SENSOR_STATUS_INITIALIZING"
    and "fst (SensorTask_InitializeSensor i st)"
    and "update_interval_ms (sensors (snd (SensorTask_InitializeSensor i st)) i) \<le> t1 - t0"
    and "\<not> fst (SensorTask_UpdateSensor i t2
               (SensorTask_NotifyEvent SENSOR_EVENT_STATUS_CHANGE i None SENSOR_STATUS_ONLINE
                  ((snd (SensorTask_InitializeSensor i st))
                     \<lparr>sensors := (sensors (snd (SensorTask_InitializeSensor i st)))
                        (i := (sensors (snd (SensorTask_InitializeSensor i st)) i)
                                \<lparr>status := SENSOR_STATUS_ONLINE, last_update_time := t0\<rparr>)\<rparr>)))"
  shows "SensorTask_MainLoop_body i t0 t1 t2 st
           = SensorTask_HandleSensorError i
               (snd (SensorTask_UpdateSensor i t2
                  (SensorTask_NotifyEvent SENSOR_EVENT_STATUS_CHANGE i None SENSOR_STATUS_ONLINE
                  ((snd (SensorTask_InitializeSensor i st))
                     \<lparr>sensors := (sensors (snd (SensorTask_InitializeSensor i st)))
                        (i := (sensors (snd (SensorTask_InitializeSensor i st)) i)
                                \<lparr>status := SENSOR_STATUS_ONLINE, last_update_time := t0\<rparr>)\<rparr>))))"
proof -
  let ?st3 = "(SensorTask_NotifyEvent SENSOR_EVENT_STATUS_CHANGE i None SENSOR_STATUS_ONLINE
                  ((snd (SensorTask_InitializeSensor i st))
                     \<lparr>sensors := (sensors (snd (SensorTask_InitializeSensor i st)))
                        (i := (sensors (snd (SensorTask_InitializeSensor i st)) i)
                                \<lparr>status := SENSOR_STATUS_ONLINE, last_update_time := t0\<rparr>)\<rparr>))"
  have due: "update_interval_ms (sensors ?st3 i) \<le> t1 - last_update_time (sensors ?st3 i)"
    using assms(4) by (simp add: SensorTask_NotifyEvent_def)
  show ?thesis
    unfolding MainLoop_body_init_ok_update [OF assms(1,2,3)]
    using due assms(5) by (rule MainLoop_update_read_fails)
qed

lemma gy30_init_ok:
  assumes "gy30_run script n s st"
  shows "SensorTask_InitializeSensor 1 st = (True, st)"
  using assms
  by (simp add: gy30_run_def SensorTask_InitializeSensor_def fake_callbacks_def fake_init_def)

subsection \<open>Registration\<close>

text \<open>
  Claim C7. \<^verbatim>\<open>SensorTask_RegisterSensor\<close> returns false and leaves the whole state (so
  the active-sensor count and the instance table) unchanged whenever the registry is not
  initialised, the kind is the none sentinel or out of range, the callbacks pointer is
  NULL, or the init or the read callback is unset. Otherwise it returns true, stores the
  name cut to \<^verbatim>\<open>SENSOR_MAX_NAME_LEN - 1\<close> characters, the callbacks, the device handle and
  the interval, resets the error count and enables the sensor: status Initializing, the
  active-sensor count incremented, and a StatusChange(Initializing) event handed to the
  event callback if one is registered.
\<close>

theorem RegisterSensor_contract:
  "(\<not> is_initialized st \<or> ty = SENSOR_TYPE_NONE \<or> ty \<ge> SENSOR_TYPE_MAX \<or> cbs = None
      \<or> (\<exists>cb. cbs = Some cb \<and> (init_func cb = None \<or> read_func cb = None))
    \<longrightarrow> SensorTask_RegisterSensor ty nm cbs dev interval st = (False, st))
   \<and> (is_initialized st \<and> ty \<noteq> SENSOR_TYPE_NONE \<and> ty < SENSOR_TYPE_MAX \<and> cbs = Some cb
        \<and> init_func cb \<noteq> None \<and> read_func cb \<noteq> None
    \<longrightarrow> fst (SensorTask_RegisterSensor ty nm cbs dev interval st) = True
        \<and> name (sensors (snd (SensorTask_RegisterSensor ty nm cbs dev interval st)) ty)
            = take (SENSOR_MAX_NAME_LEN - 1) nm
        \<and> callbacks (snd (SensorTask_RegisterSensor ty nm cbs dev interval st)) ty = cb
        \<and> device_handle (sensors (snd (SensorTask_RegisterSensor ty nm cbs dev interval st)) ty) = dev
        \<and> update_interval_ms (sensors (snd (SensorTask_RegisterSensor ty nm cbs dev interval st)) ty)
            = interval
        \<and> error_count (sensors (snd (SensorTask_RegisterSensor ty nm cbs dev interval st)) ty) = 0
        \<and> is_enabled (sensors (snd (SensorTask_RegisterSensor ty nm cbs dev interval st)) ty)
        \<and> status (sensors (snd (SensorTask_RegisterSensor ty nm cbs dev interval st)) ty)
            = SENSOR_STATUS_INITIALIZING
        \<and> active_sensor_count (snd (SensorTask_RegisterSensor ty nm cbs dev interval st))
            = active_sensor_count st + 1
        \<and> delivered (snd (SensorTask_RegisterSensor ty nm cbs dev interval st))
            = delivered st @
              (if g_event_callback st then [status_event ty SENSOR_STATUS_INITIALIZING] else []))"
  by (auto simp add: SensorTask_RegisterSensor_def SensorTask_EnableSensor_def
        SensorTask_NotifyEvent_def Let_def status_event_def)

theorem RegisterSensor_contract_witness:
  "SensorTask_RegisterSensor SENSOR_TYPE_GY30 ''GY30''
       (Some (fake_callbacks\<lparr>read_func := None\<rparr>)) (Some [Some 10, Some 20, Some 30]) 2000 demo_init
     = (False, demo_init)
   \<and> fst (SensorTask_RegisterSensor SENSOR_TYPE_GY30 ''GY30'' (Some fake_callbacks)
            (Some [Some 10, Some 20, Some 30]) 2000 demo_init)
   \<and> name (sensors demo_ready SENSOR_TYPE_GY30) = ''GY30''
   \<and> error_count (sensors demo_ready SENSOR_TYPE_GY30) = 0
   \<and> is_enabled (sensors demo_ready SENSOR_TYPE_GY30)
   \<and> status (sensors demo_ready SENSOR_TYPE_GY30) = SENSOR_STATUS_INITIALIZING
   \<and> active_sensor_count demo_ready = 1
   \<and> delivered demo_ready = [status_event SENSOR_TYPE_GY30 SENSOR_STATUS_INITIALIZING]"
  using RegisterSensor_contract [of demo_init SENSOR_TYPE_GY30
          "Some (fake_callbacks\<lparr>read_func := None\<rparr>)" "''GY30''"
          "Some [Some 10, Some 20, Some 30]" 2000]
        RegisterSensor_contract [of demo_init SENSOR_TYPE_GY30 "Some fake_callbacks" "''GY30''"
          "Some [Some 10, Some 20, Some 30]" 2000 fake_callbacks]
        demo_init_initialized demo_init_fields
  by (simp add: demo_ready_def demo_registered_def fake_callbacks_def)

subsection \<open>Disabling a sensor\<close>

text \<open>
  Claim C8, as amended. On an initialised registry \<^verbatim>\<open>SensorTask_DisableSensor\<close> returns
  true for every valid kind. If the instance is enabled, the deinit callback (if present)
  runs first and the instance is then marked not enabled with status Offline. If the
  instance is not enabled, the call changes nothing; this is the case of the Error status
  left by the hard-threshold escalation, which therefore stays Error.
\<close>

theorem DisableSensor_toggle:
  assumes "is_initialized st" and "ty \<noteq> SENSOR_TYPE_NONE" and "ty < SENSOR_TYPE_MAX"
  shows "fst (SensorTask_DisableSensor ty st) = True
         \<and> (is_enabled (sensors st ty) \<longrightarrow>
              sensors (snd (SensorTask_DisableSensor ty st)) ty
                = (after_deinit st ty (sensors st ty))
                  \<lparr>is_enabled := False, status := SENSOR_STATUS_OFFLINE\<rparr>
              \<and> status (sensors (snd (SensorTask_DisableSensor ty st)) ty) = SENSOR_STATUS_OFFLINE)
         \<and> (\<not> is_enabled (sensors st ty) \<longrightarrow> snd (SensorTask_DisableSensor ty st) = st)"
  using assms by (simp add: SensorTask_DisableSensor_def Let_def after_deinit_def)

theorem DisableSensor_toggle_witness:
  "is_initialized demo_ready \<and> SENSOR_TYPE_GY30 \<noteq> SENSOR_TYPE_NONE
   \<and> SENSOR_TYPE_GY30 < SENSOR_TYPE_MAX \<and> is_enabled (sensors demo_ready SENSOR_TYPE_GY30)
   \<and> fst (SensorTask_DisableSensor SENSOR_TYPE_GY30 demo_ready) = True
   \<and> status (sensors (snd (SensorTask_DisableSensor SENSOR_TYPE_GY30 demo_ready)) SENSOR_TYPE_GY30)
       = SENSOR_STATUS_OFFLINE
   \<and> device_handle (sensors (snd (SensorTask_DisableSensor SENSOR_TYPE_GY30 demo_ready))
        SENSOR_TYPE_GY30) = None
   \<and> is_initialized demo_error \<and> \<not> is_enabled (sensors demo_error SENSOR_TYPE_GY30)
   \<and> snd (SensorTask_DisableSensor SENSOR_TYPE_GY30 demo_error) = demo_error"
  using DisableSensor_toggle [of demo_ready SENSOR_TYPE_GY30]
    DisableSensor_toggle [of demo_error SENSOR_TYPE_GY30]
    demo_ready_fields demo_error_fields
  by (simp add: after_deinit_def fake_callbacks_def fake_deinit_def)

text \<open>
  Claim C8 as stated fails in the Error status: after ten sweeps with failing reads the
  light sensor is in status Error, and \<^verbatim>\<open>SensorTask_DisableSensor\<close> returns true but
  leaves that status.
\<close>

theorem DisableSensor_error_counterexample:
  "is_initialized demo_error
   \<and> status (sensors demo_error SENSOR_TYPE_GY30) = SENSOR_STATUS_ERROR
   \<and> fst (SensorTask_DisableSensor SENSOR_TYPE_GY30 demo_error) = True
   \<and> status (sensors (snd (SensorTask_DisableSensor SENSOR_TYPE_GY30 demo_error)) SENSOR_TYPE_GY30)
       \<noteq> SENSOR_STATUS_OFFLINE"
  using demo_error_fields by (simp add: SensorTask_DisableSensor_def)

subsection \<open>Error escalation\<close>

text \<open>
  Claim C1. For an enabled instance of a valid kind, the handler that the scheduler runs
  after each failed init or read increments \<^verbatim>\<open>error_count\<close> by one. When the count
  reaches 5 it sets the status to Initializing and leaves the instance enabled. When the
  count reaches 10 it calls \<^verbatim>\<open>SensorTask_DisableSensor\<close> (which runs the deinit callback
  if present), sets the status to Error and emits StatusChange(Error) after the
  StatusChange(Offline) of the disabling; a following \<^verbatim>\<open>SensorTask_EnableSensor\<close> on
  that kind returns true, resets \<^verbatim>\<open>error_count\<close> to 0 and sets the status to
  Initializing. The scheduler's loop body runs the handler on every failure: when the
  init of an Initializing instance fails (on the state the init callback left), when a
  due read of an instance that is not Initializing fails, and when the init succeeds and
  the read that is then due in the same cycle fails (on the state the read left, after
  the status Online, the last-update stamp and the StatusChange(Online) event). The last
  conjunct states the read case for the update step \<^verbatim>\<open>SensorTask_MainLoop_update\<close> on
  an arbitrary state \<open>s\<close>, which both read paths of the loop body go through.
\<close>

theorem HandleSensorError_escalation:
  assumes "is_initialized st" and "0 < i" and "i < SENSOR_TYPE_MAX"
    and "type (sensors st i) = i" and "is_enabled (sensors st i)"
  shows
    "(error_count (sensors st i) + 1 \<noteq> 5 \<and> error_count (sensors st i) + 1 \<noteq> 10 \<longrightarrow>
        SensorTask_HandleSensorError i st
          = st\<lparr>sensors := (sensors st)(i := (sensors st i)\<lparr>error_count :=
                                                 error_count (sensors st i) + 1\<rparr>)\<rparr>)
     \<and> (error_count (sensors st i) + 1 = 5 \<longrightarrow>
        SensorTask_HandleSensorError i st
          = st\<lparr>sensors := (sensors st)(i := (sensors st i)\<lparr>error_count := 5,
                                                 status := SENSOR_STATUS_INITIALIZING\<rparr>)\<rparr>
        \<and> is_enabled (sensors (SensorTask_HandleSensorError i st) i))
     \<and> (error_count (sensors st i) + 1 = 10 \<longrightarrow>
        SensorTask_HandleSensorError i st
          = st\<lparr>sensors := (sensors st)
                  (i := (after_deinit st i ((sensors st i)\<lparr>error_count := 10\<rparr>))
                          \<lparr>is_enabled := False, status := SENSOR_STATUS_ERROR\<rparr>),
                active_sensor_count := active_sensor_count st - 1,
                delivered := delivered st @
                  (if g_event_callback st
                   then [status_event i SENSOR_STATUS_OFFLINE,
                         status_event (type (after_deinit st i ((sensors st i)\<lparr>error_count := 10\<rparr>)))
                           SENSOR_STATUS_ERROR]
                   else [])\<rparr>
        \<and> fst (SensorTask_EnableSensor i (SensorTask_HandleSensorError i st))
        \<and> error_count (sensors (snd (SensorTask_EnableSensor i (SensorTask_HandleSensorError i st))) i) = 0
        \<and> status (sensors (snd (SensorTask_EnableSensor i (SensorTask_HandleSensorError i st))) i)
            = SENSOR_STATUS_INITIALIZING
        \<and> is_enabled (sensors (snd (SensorTask_EnableSensor i (SensorTask_HandleSensorError i st))) i))
     \<and> (status (sensors st i) = SENSOR_STATUS_INITIALIZING \<and> \<not> fst (SensorTask_InitializeSensor i st) \<longrightarrow>
        SensorTask_MainLoop_body i t0 t1 t2 st
          = SensorTask_HandleSensorError i (snd (SensorTask_InitializeSensor i st)))
     \<and> (status (sensors st i) \<noteq> SENSOR_STATUS_INITIALIZING
        \<and> update_interval_ms (sensors st i) \<le> t1 - last_update_time (sensors st i)
        \<and> \<not> fst (SensorTask_UpdateSensor i t2 st) \<longrightarrow>
        SensorTask_MainLoop_body i t0 t1 t2 st
          = SensorTask_HandleSensorError i (snd (SensorTask_UpdateSensor i t2 st)))
     \<and> (status (sensors st i) = SENSOR_STATUS_INITIALIZING
        \<and> fst (SensorTask_InitializeSensor i st)
        \<and> update_interval_ms (sensors (snd (SensorTask_InitializeSensor i st)) i) \<le> t1 - t0
        \<and> \<not> fst (SensorTask_UpdateSensor i t2
               (SensorTask_NotifyEvent SENSOR_EVENT_STATUS_CHANGE i None SENSOR_STATUS_ONLINE
                  ((snd (SensorTask_InitializeSensor i st))
                     \<lparr>sensors := (sensors (snd (SensorTask_InitializeSensor i st)))
                        (i := (sensors (snd (SensorTask_InitializeSensor i st)) i)
                                \<lparr>status := SENSOR_STATUS_ONLINE, last_update_time := t0\<rparr>)\<rparr>))) \<longrightarrow>
        SensorTask_MainLoop_body i t0 t1 t2 st
          = SensorTask_HandleSensorError i
              (snd (SensorTask_UpdateSensor i t2
                 (SensorTask_NotifyEvent SENSOR_EVENT_STATUS_CHANGE i None SENSOR_STATUS_ONLINE
                  ((snd (SensorTask_InitializeSensor i st))
                     \<lparr>sensors := (sensors (snd (SensorTask_InitializeSensor i st)))
                        (i := (sensors (snd (SensorTask_InitializeSensor i st)) i)
                                \<lparr>status := SENSOR_STATUS_ONLINE, last_update_time := t0\<rparr>)\<rparr>)))))
     \<and> (update_interval_ms (sensors s i) \<le> t1 - last_update_time (sensors s i)
        \<and> \<not> fst (SensorTask_UpdateSensor i t2 s) \<longrightarrow>
        SensorTask_MainLoop_update i t1 t2 s
          = SensorTask_HandleSensorError i (snd (SensorTask_UpdateSensor i t2 s)))"
proof (intro conjI impI)
  assume "error_count (sensors st i) + 1 \<noteq> 5 \<and> error_count (sensors st i) + 1 \<noteq> 10"
  then show "SensorTask_HandleSensorError i st
          = st\<lparr>sensors := (sensors st)(i := (sensors st i)\<lparr>error_count :=
                                                 error_count (sensors st i) + 1\<rparr>)\<rparr>"
    by (simp add: HandleSensorError_plain)
next
  assume a: "error_count (sensors st i) + 1 = 5"
  then show "SensorTask_HandleSensorError i st
          = st\<lparr>sensors := (sensors st)(i := (sensors st i)\<lparr>error_count := 5,
                                                 status := SENSOR_STATUS_INITIALIZING\<rparr>)\<rparr>"
    by (rule HandleSensorError_soft)
  show "is_enabled (sensors (SensorTask_HandleSensorError i st) i)"
    using assms(5) by (simp add: HandleSensorError_soft [OF a])
next
  assume a: "error_count (sensors st i) + 1 = 10"
  note h = HandleSensorError_hard [OF a assms(1,4,2,3,5)]
  show "SensorTask_HandleSensorError i st
          = st\<lparr>sensors := (sensors st)
                  (i := (after_deinit st i ((sensors st i)\<lparr>error_count := 10\<rparr>))
                          \<lparr>is_enabled := False, status := SENSOR_STATUS_ERROR\<rparr>),
                active_sensor_count := active_sensor_count st - 1,
                delivered := delivered st @
                  (if g_event_callback st
                   then [status_event i SENSOR_STATUS_OFFLINE,
                         status_event (type (after_deinit st i ((sensors st i)\<lparr>error_count := 10\<rparr>)))
                           SENSOR_STATUS_ERROR]
                   else [])\<rparr>"
    by (rule h)
  show "fst (SensorTask_EnableSensor i (SensorTask_HandleSensorError i st))"
    "error_count (sensors (snd (SensorTask_EnableSensor i (SensorTask_HandleSensorError i st))) i) = 0"
    "status (sensors (snd (SensorTask_EnableSensor i (SensorTask_HandleSensorError i st))) i)
            = SENSOR_STATUS_INITIALIZING"
    "is_enabled (sensors (snd (SensorTask_EnableSensor i (SensorTask_HandleSensorError i st))) i)"
    unfolding h using assms(1,2,3)
    by (simp_all add: SensorTask_EnableSensor_def Let_def)
next
  assume "status (sensors st i) = SENSOR_STATUS_INITIALIZING \<and> \<not> fst (SensorTask_InitializeSensor i st)"
  then show "SensorTask_MainLoop_body i t0 t1 t2 st
          = SensorTask_HandleSensorError i (snd (SensorTask_InitializeSensor i st))"
    using assms(5) by (simp add: MainLoop_body_init_fails)
next
  assume "status (sensors st i) \<noteq> SENSOR_STATUS_INITIALIZING
        \<and> update_interval_ms (sensors st i) \<le> t1 - last_update_time (sensors st i)
        \<and> \<not> fst (SensorTask_UpdateSensor i t2 st)"
  then show "SensorTask_MainLoop_body i t0 t1 t2 st
          = SensorTask_HandleSensorError i (snd (SensorTask_UpdateSensor i t2 st))"
    using assms(5) by (simp add: MainLoop_body_read_fails)
next
  assume "status (sensors st i) = SENSOR_STATUS_INITIALIZING
        \<and> fst (SensorTask_InitializeSensor i st)
        \<and> update_interval_ms (sensors (snd (SensorTask_InitializeSensor i st)) i) \<le> t1 - t0
        \<and> \<not> fst (SensorTask_UpdateSensor i t2
               (SensorTask_NotifyEvent SENSOR_EVENT_STATUS_CHANGE i None SENSOR_STATUS_ONLINE
                  ((snd (SensorTask_InitializeSensor i st))
                     \<lparr>sensors := (sensors (snd (SensorTask_InitializeSensor i st)))
                        (i := (sensors (snd (SensorTask_InitializeSensor i st)) i)
                                \<lparr>status := SENSOR_STATUS_ONLINE, last_update_time := t0\<rparr>)\<rparr>)))"
  then show "SensorTask_MainLoop_body i t0 t1 t2 st
          = SensorTask_HandleSensorError i
              (snd (SensorTask_UpdateSensor i t2
                 (SensorTask_NotifyEvent SENSOR_EVENT_STATUS_CHANGE i None SENSOR_STATUS_ONLINE
                  ((snd (SensorTask_InitializeSensor i st))
                     \<lparr>sensors := (sensors (snd (SensorTask_InitializeSensor i st)))
                        (i := (sensors (snd (SensorTask_InitializeSensor i st)) i)
                                \<lparr>status := SENSOR_STATUS_ONLINE, last_update_time := t0\<rparr>)\<rparr>))))"
    using assms(5) by (intro MainLoop_body_init_ok_read_fails) simp_all
next
  assume "update_interval_ms (sensors s i) \<le> t1 - last_update_time (sensors s i)
        \<and> \<not> fst (SensorTask_UpdateSensor i t2 s)"
  then show "SensorTask_MainLoop_update i t1 t2 s
          = SensorTask_HandleSensorError i (snd (SensorTask_UpdateSensor i t2 s))"
    by (simp add: MainLoop_update_read_fails)
qed

theorem HandleSensorError_escalation_witness:
  "(is_initialized demo_failing \<and> type (sensors demo_failing 1) = 1
      \<and> is_enabled (sensors demo_failing 1) \<and> error_count (sensors demo_failing 1) = 0
      \<and> error_count (sensors (SensorTask_HandleSensorError 1 demo_failing) 1) = 1)
   \<and> (error_count (sensors (demo_sweeps 4 demo_failing) 1) = 4
      \<and> status (sensors (SensorTask_HandleSensorError 1 (demo_sweeps 4 demo_failing)) 1)
          = SENSOR_STATUS_INITIALIZING
      \<and> is_enabled (sensors (SensorTask_HandleSensorError 1 (demo_sweeps 4 demo_failing)) 1)
      \<and> error_count (sensors (SensorTask_HandleSensorError 1 (demo_sweeps 4 demo_failing)) 1) = 5)
   \<and> (error_count (sensors (demo_sweeps 9 demo_failing) 1) = 9
      \<and> status (sensors (SensorTask_HandleSensorError 1 (demo_sweeps 9 demo_failing)) 1)
          = SENSOR_STATUS_ERROR
      \<and> \<not> is_enabled (sensors (SensorTask_HandleSensorError 1 (demo_sweeps 9 demo_failing)) 1)
      \<and> device_handle (sensors (SensorTask_HandleSensorError 1 (demo_sweeps 9 demo_failing)) 1) = None
      \<and> delivered (SensorTask_HandleSensorError 1 (demo_sweeps 9 demo_failing))
          = delivered (demo_sweeps 9 demo_failing)
            @ [status_event 1 SENSOR_STATUS_OFFLINE, status_event 1 SENSOR_STATUS_ERROR]
      \<and> error_count (sensors (snd (SensorTask_EnableSensor 1
           (SensorTask_HandleSensorError 1 (demo_sweeps 9 demo_failing)))) 1) = 0
      \<and> status (sensors (snd (SensorTask_EnableSensor 1
           (SensorTask_HandleSensorError 1 (demo_sweeps 9 demo_failing)))) 1)
          = SENSOR_STATUS_INITIALIZING)
   \<and> (status (sensors demo_badinit 1) = SENSOR_STATUS_INITIALIZING
      \<and> \<not> fst (SensorTask_InitializeSensor 1 demo_badinit)
      \<and> error_count (sensors (SensorTask_MainLoop_body 1 0 0 0 demo_badinit) 1) = 1)
   \<and> (status (sensors (demo_sweeps 1 demo_failing) 1) = SENSOR_STATUS_ONLINE
      \<and> \<not> fst (SensorTask_UpdateSensor 1 0 (demo_sweeps 1 demo_failing))
      \<and> error_count (sensors (SensorTask_MainLoop_body 1 0 0 0 (demo_sweeps 1 demo_failing)) 1) = 2)
   \<and> (status (sensors demo_failing 1) = SENSOR_STATUS_INITIALIZING
      \<and> fst (SensorTask_InitializeSensor 1 demo_failing)
      \<and> status (sensors (SensorTask_MainLoop_body 1 0 0 0 demo_failing) 1) = SENSOR_STATUS_ONLINE
      \<and> error_count (sensors (SensorTask_MainLoop_body 1 0 0 0 demo_failing) 1) = 1)
   \<and> (update_interval_ms (sensors (demo_sweeps 1 demo_failing) 1) = 0
      \<and> error_count (sensors (SensorTask_MainLoop_update 1 0 0 (demo_sweeps 1 demo_failing)) 1) = 2)"
proof -
  note f0 = gy30_run_fields [OF run0 [unfolded demo_sweeps_step]]
  note f1 = gy30_run_fields [OF run1]
  note f4 = gy30_run_fields [OF run4]
  note f9 = gy30_run_fields [OF run9]
  have p0: "is_initialized demo_failing \<and> type (sensors demo_failing 1) = 1
      \<and> is_enabled (sensors demo_failing 1) \<and> error_count (sensors demo_failing 1) = 0
      \<and> error_count (sensors (SensorTask_HandleSensorError 1 demo_failing) 1) = 1"
    using HandleSensorError_escalation [of demo_failing 1 0 0 0 demo_failing] f0 by simp
  have p4: "error_count (sensors (demo_sweeps 4 demo_failing) 1) = 4
      \<and> status (sensors (SensorTask_HandleSensorError 1 (demo_sweeps 4 demo_failing)) 1)
          = SENSOR_STATUS_INITIALIZING
      \<and> is_enabled (sensors (SensorTask_HandleSensorError 1 (demo_sweeps 4 demo_failing)) 1)
      \<and> error_count (sensors (SensorTask_HandleSensorError 1 (demo_sweeps 4 demo_failing)) 1) = 5"
    using HandleSensorError_escalation [of "demo_sweeps 4 demo_failing" 1 0 0 0 demo_failing] f4 by simp
  have c9: "error_count (sensors (demo_sweeps 9 demo_failing) 1) + 1 = 10"
    using f9 by simp
  have m: "(1::nat) < SENSOR_TYPE_MAX" by simp
  note t9 = HandleSensorError_escalation [where st = "demo_sweeps 9 demo_failing" and i = 1,
      OF f9(1) zero_less_one m f9(4) f9(5)]
  from t9 c9 have h9: "SensorTask_HandleSensorError 1 (demo_sweeps 9 demo_failing)
      = (demo_sweeps 9 demo_failing)\<lparr>sensors := (sensors (demo_sweeps 9 demo_failing))
              (1 := (after_deinit (demo_sweeps 9 demo_failing) 1
                       ((sensors (demo_sweeps 9 demo_failing) 1)\<lparr>error_count := 10\<rparr>))
                      \<lparr>is_enabled := False, status := SENSOR_STATUS_ERROR\<rparr>),
            active_sensor_count := active_sensor_count (demo_sweeps 9 demo_failing) - 1,
            delivered := delivered (demo_sweeps 9 demo_failing) @
              (if g_event_callback (demo_sweeps 9 demo_failing)
               then [status_event 1 SENSOR_STATUS_OFFLINE,
                     status_event (type (after_deinit (demo_sweeps 9 demo_failing) 1
                        ((sensors (demo_sweeps 9 demo_failing) 1)\<lparr>error_count := 10\<rparr>)))
                       SENSOR_STATUS_ERROR]
               else [])\<rparr>"
    by blast
  from t9 c9 have e9: "error_count (sensors (snd (SensorTask_EnableSensor 1
           (SensorTask_HandleSensorError 1 (demo_sweeps 9 demo_failing)))) 1) = 0
      \<and> status (sensors (snd (SensorTask_EnableSensor 1
           (SensorTask_HandleSensorError 1 (demo_sweeps 9 demo_failing)))) 1)
          = SENSOR_STATUS_INITIALIZING"
    by blast
  have d9: "status (sensors (SensorTask_HandleSensorError 1 (demo_sweeps 9 demo_failing)) 1)
          = SENSOR_STATUS_ERROR
      \<and> \<not> is_enabled (sensors (SensorTask_HandleSensorError 1 (demo_sweeps 9 demo_failing)) 1)
      \<and> device_handle (sensors (SensorTask_HandleSensorError 1 (demo_sweeps 9 demo_failing)) 1) = None
      \<and> delivered (SensorTask_HandleSensorError 1 (demo_sweeps 9 demo_failing))
          = delivered (demo_sweeps 9 demo_failing)
            @ [status_event 1 SENSOR_STATUS_OFFLINE, status_event 1 SENSOR_STATUS_ERROR]"
    unfolding h9 using f9 by (simp add: after_deinit_def fake_callbacks_def fake_deinit_def)
  have p9: "error_count (sensors (demo_sweeps 9 demo_failing) 1) = 9
      \<and> status (sensors (SensorTask_HandleSensorError 1 (demo_sweeps 9 demo_failing)) 1)
          = SENSOR_STATUS_ERROR
      \<and> \<not> is_enabled (sensors (SensorTask_HandleSensorError 1 (demo_sweeps 9 demo_failing)) 1)
      \<and> device_handle (sensors (SensorTask_HandleSensorError 1 (demo_sweeps 9 demo_failing)) 1) = None
      \<and> delivered (SensorTask_HandleSensorError 1 (demo_sweeps 9 demo_failing))
          = delivered (demo_sweeps 9 demo_failing)
            @ [status_event 1 SENSOR_STATUS_OFFLINE, status_event 1 SENSOR_STATUS_ERROR]
      \<and> error_count (sensors (snd (SensorTask_EnableSensor 1
           (SensorTask_HandleSensorError 1 (demo_sweeps 9 demo_failing)))) 1) = 0
      \<and> status (sensors (snd (SensorTask_EnableSensor 1
           (SensorTask_HandleSensorError 1 (demo_sweeps 9 demo_failing)))) 1)
          = SENSOR_STATUS_INITIALIZING"
    using f9(8) d9 e9 by blast
  have pb: "status (sensors demo_badinit 1) = SENSOR_STATUS_INITIALIZING
      \<and> \<not> fst (SensorTask_InitializeSensor 1 demo_badinit)
      \<and> error_count (sensors (SensorTask_MainLoop_body 1 0 0 0 demo_badinit) 1) = 1"
    using HandleSensorError_escalation [of demo_badinit 1 0 0 0 demo_badinit] demo_badinit_fields
      HandleSensorError_plain [of "snd (SensorTask_InitializeSensor 1 demo_badinit)" 1]
    by simp
  have p1: "status (sensors (demo_sweeps 1 demo_failing) 1) = SENSOR_STATUS_ONLINE
      \<and> \<not> fst (SensorTask_UpdateSensor 1 0 (demo_sweeps 1 demo_failing))
      \<and> error_count (sensors (SensorTask_MainLoop_body 1 0 0 0 (demo_sweeps 1 demo_failing)) 1) = 2"
    using HandleSensorError_escalation [of "demo_sweeps 1 demo_failing" 1 0 0 0 demo_failing] f1 run1_read
      HandleSensorError_plain [of "demo_sweeps 1 demo_failing" 1]
    by simp
  note r0 = run0 [unfolded demo_sweeps_step]
  note i0 = gy30_init_ok [OF r0]
  let ?st3 = "SensorTask_NotifyEvent SENSOR_EVENT_STATUS_CHANGE 1 None SENSOR_STATUS_ONLINE
                ((snd (SensorTask_InitializeSensor 1 demo_failing))
                   \<lparr>sensors := (sensors (snd (SensorTask_InitializeSensor 1 demo_failing)))
                      (1 := (sensors (snd (SensorTask_InitializeSensor 1 demo_failing)) 1)
                              \<lparr>status := SENSOR_STATUS_ONLINE, last_update_time := 0\<rparr>)\<rparr>)"
  have r3: "gy30_run [] 0 SENSOR_STATUS_ONLINE ?st3"
    unfolding i0 snd_conv by (rule gy30_run_after_init [OF r0])
  have s0: "([]::real option list) = [] \<or> hd ([]::real option list) = None" by simp
  note u3 = gy30_read_fails [OF r3 s0, of 0]
  have nf3: "\<not> fst (SensorTask_UpdateSensor 1 0 ?st3)"
    unfolding u3 by simp
  have due3: "update_interval_ms (sensors (snd (SensorTask_InitializeSensor 1 demo_failing)) 1)
                \<le> (0::32 word) - 0"
    unfolding i0 snd_conv using f0(7) by simp
  have fi: "fst (SensorTask_InitializeSensor 1 demo_failing)"
    unfolding i0 by simp
  note t6 = HandleSensorError_escalation [where st = demo_failing and i = 1 and ?t0.0 = 0
      and ?t1.0 = 0 and ?t2.0 = 0, OF f0(1) zero_less_one m f0(4) f0(5)]
  from t6 f0(9) fi due3 nf3
  have b6: "SensorTask_MainLoop_body 1 0 0 0 demo_failing
              = SensorTask_HandleSensorError 1 (snd (SensorTask_UpdateSensor 1 0 ?st3))"
    by blast
  have "gy30_run [] (0 + 1) (if (0::32 word) + 1 = 5 then SENSOR_STATUS_INITIALIZING
                              else SENSOR_STATUS_ONLINE)
          (SensorTask_HandleSensorError 1 (snd (SensorTask_UpdateSensor 1 0 ?st3)))"
    unfolding u3 snd_conv using gy30_run_after_read [OF r3]
    by (intro gy30_handler) simp_all
  then have r6: "gy30_run [] 1 SENSOR_STATUS_ONLINE (SensorTask_MainLoop_body 1 0 0 0 demo_failing)"
    unfolding b6 by simp
  have p6: "status (sensors demo_failing 1) = SENSOR_STATUS_INITIALIZING
      \<and> fst (SensorTask_InitializeSensor 1 demo_failing)
      \<and> status (sensors (SensorTask_MainLoop_body 1 0 0 0 demo_failing) 1) = SENSOR_STATUS_ONLINE
      \<and> error_count (sensors (SensorTask_MainLoop_body 1 0 0 0 demo_failing) 1) = 1"
    using f0(9) fi gy30_run_fields(8,9) [OF r6] by blast
  note t7 = HandleSensorError_escalation [where st = demo_failing and i = 1
      and s = "demo_sweeps 1 demo_failing" and ?t1.0 = 0 and ?t2.0 = 0,
      OF f0(1) zero_less_one m f0(4) f0(5)]
  have due7: "update_interval_ms (sensors (demo_sweeps 1 demo_failing) 1)
                \<le> (0::32 word) - last_update_time (sensors (demo_sweeps 1 demo_failing) 1)"
    using f1(7) by simp
  from t7 due7 run1_read(1)
  have b7: "SensorTask_MainLoop_update 1 0 0 (demo_sweeps 1 demo_failing)
              = SensorTask_HandleSensorError 1
                  (snd (SensorTask_UpdateSensor 1 0 (demo_sweeps 1 demo_failing)))"
    by blast
  have e7: "error_count (sensors (SensorTask_MainLoop_update 1 0 0 (demo_sweeps 1 demo_failing)) 1) = 2"
    unfolding b7 run1_read(2)
    using f1 HandleSensorError_plain [of "demo_sweeps 1 demo_failing" 1] by simp
  have p7: "update_interval_ms (sensors (demo_sweeps 1 demo_failing) 1) = 0
      \<and> error_count (sensors (SensorTask_MainLoop_update 1 0 0 (demo_sweeps 1 demo_failing)) 1) = 2"
    using f1(7) e7 by blast
  from p0 p4 p9 pb p1 p6 p7 show ?thesis by blast
qed

subsection \<open>What resets the error count\<close>

text \<open>
  Claim C2, as amended. A successful read resets \<^verbatim>\<open>error_count\<close> to 0, in
  \<^verbatim>\<open>SensorTask_UpdateSensor\<close> and so in the update step of the scheduler. A successful
  init in the Initializing step sets the status to Online, stamps the last-update time
  and, when no read is due in the same cycle, leaves \<^verbatim>\<open>error_count\<close> as the init
  callback left it: the scheduler does not reset it.
\<close>

theorem error_count_reset_by_read:
  assumes "is_enabled (sensors st i)"
  shows
    "(fst (SensorTask_UpdateSensor i t2 st) \<longrightarrow>
        error_count (sensors (snd (SensorTask_UpdateSensor i t2 st)) i) = 0)
     \<and> (status (sensors st i) \<noteq> SENSOR_STATUS_INITIALIZING
        \<and> update_interval_ms (sensors st i) \<le> t1 - last_update_time (sensors st i)
        \<and> fst (SensorTask_UpdateSensor i t2 st) \<longrightarrow>
        error_count (sensors (SensorTask_MainLoop_body i t0 t1 t2 st) i) = 0)
     \<and> (status (sensors st i) = SENSOR_STATUS_INITIALIZING
        \<and> fst (SensorTask_InitializeSensor i st)
        \<and> \<not> update_interval_ms (sensors (snd (SensorTask_InitializeSensor i st)) i) \<le> t1 - t0 \<longrightarrow>
        status (sensors (SensorTask_MainLoop_body i t0 t1 t2 st) i) = SENSOR_STATUS_ONLINE
        \<and> last_update_time (sensors (SensorTask_MainLoop_body i t0 t1 t2 st) i) = t0
        \<and> error_count (sensors (SensorTask_MainLoop_body i t0 t1 t2 st) i)
            = error_count (sensors (snd (SensorTask_InitializeSensor i st)) i))"
  using assms
  by (simp add: UpdateSensor_ok_error_count MainLoop_body_read_ok MainLoop_body_init_ok)

theorem error_count_reset_by_read_witness:
  "is_enabled (sensors demo_flaky SENSOR_TYPE_GY30)
   \<and> status (sensors demo_flaky SENSOR_TYPE_GY30) = SENSOR_STATUS_ONLINE
   \<and> error_count (sensors demo_flaky SENSOR_TYPE_GY30) = 1
   \<and> fst (SensorTask_UpdateSensor SENSOR_TYPE_GY30 0 demo_flaky)
   \<and> error_count (sensors (snd (SensorTask_UpdateSensor SENSOR_TYPE_GY30 0 demo_flaky))
        SENSOR_TYPE_GY30) = 0
   \<and> error_count (sensors (SensorTask_MainLoop_body SENSOR_TYPE_GY30 0 0 0 demo_flaky)
        SENSOR_TYPE_GY30) = 0
   \<and> is_enabled (sensors demo_soft SENSOR_TYPE_GY30)
   \<and> status (sensors demo_soft SENSOR_TYPE_GY30) = SENSOR_STATUS_INITIALIZING
   \<and> fst (SensorTask_InitializeSensor SENSOR_TYPE_GY30 demo_soft)
   \<and> status (sensors (SensorTask_MainLoop_body SENSOR_TYPE_GY30 0 0 0 demo_soft) SENSOR_TYPE_GY30)
       = SENSOR_STATUS_ONLINE
   \<and> last_update_time (sensors (SensorTask_MainLoop_body SENSOR_TYPE_GY30 0 0 0 demo_soft)
        SENSOR_TYPE_GY30) = 0
   \<and> error_count (sensors (SensorTask_MainLoop_body SENSOR_TYPE_GY30 0 0 0 demo_soft) SENSOR_TYPE_GY30)
       = 5"
  using error_count_reset_by_read [of demo_flaky 1 0 0 0]
    error_count_reset_by_read [of demo_soft 1 0 0 0]
    gy30_run_fields [OF demo_flaky_run] gy30_read_ok [OF demo_flaky_run, of 0]
    demo_soft_fields demo_soft_init
  by simp

text \<open>
  Claim C2 as stated fails for the init: with the error count at the soft threshold 5
  and the status Initializing, the init succeeds, the status becomes Online and the error
  count is still 5.
\<close>

theorem init_success_keeps_error_count_counterexample:
  "is_enabled (sensors demo_soft SENSOR_TYPE_GY30)
   \<and> status (sensors demo_soft SENSOR_TYPE_GY30) = SENSOR_STATUS_INITIALIZING
   \<and> error_count (sensors demo_soft SENSOR_TYPE_GY30) = 5
   \<and> fst (SensorTask_InitializeSensor SENSOR_TYPE_GY30 demo_soft)
   \<and> status (sensors (SensorTask_MainLoop_body SENSOR_TYPE_GY30 0 0 0 demo_soft) SENSOR_TYPE_GY30)
       = SENSOR_STATUS_ONLINE
   \<and> error_count (sensors (SensorTask_MainLoop_body SENSOR_TYPE_GY30 0 0 0 demo_soft) SENSOR_TYPE_GY30)
       \<noteq> 0"
proof -
  have "sensors (SensorTask_MainLoop_body 1 0 0 0 demo_soft) 1
          = (sensors (snd (SensorTask_InitializeSensor 1 demo_soft)) 1)
              \<lparr>status := SENSOR_STATUS_ONLINE, last_update_time := 0\<rparr>"
    using demo_soft_fields demo_soft_init by (intro MainLoop_body_init_ok) simp_all
  then show ?thesis
    using demo_soft_fields demo_soft_init by simp
qed

subsection \<open>The circular buffer\<close>

lemma mod_window_distinct:
  fixes k n :: nat
  assumes "k < n" and "n < k + 20"
  shows "k mod 20 \<noteq> n mod 20"
proof
  assume "k mod 20 = n mod 20"
  then have "20 dvd n - k"
    using assms(1) by (metis less_imp_le_nat mod_eq_dvd_iff_nat)
  then have "20 \<le> n - k" using assms(1) by (intro dvd_imp_le) simp_all
  with assms(2) show False by simp
qed

lemma window_index:
  fixes n j :: nat
  assumes "j < min n 20"
  shows "n - 20 \<le> n - 20 + j" and "n - 20 + j < n"
  using assms by (cases "n < 20"; simp)+

lemma ring_holds_fresh:
  assumes "history_count s = 0" and "history_head s = 0"
    and "length (history s) = SENSOR_HISTORY_SIZE"
  shows "ring_holds [] s"
  using assms by (simp add: ring_holds_def)

lemma ring_holds_history:
  assumes "ring_holds ws s"
  shows "ring_holds (ws @ [p]) (SensorTask_UpdateSensor_history p q s)"
proof -
  let ?n = "length ws"
  from assms have len: "length (history s) = 20" and cnt: "history_count s = min ?n 20"
    and hd: "history_head s = ?n mod 20"
    and old: "\<And>k. ?n - 20 \<le> k \<Longrightarrow> k < ?n \<Longrightarrow> history s ! (k mod 20) = ws ! k"
    by (simp_all add: ring_holds_def)
  let ?s' = "SensorTask_UpdateSensor_history p q s"
  have h': "history ?s' = (history s)[?n mod 20 := p]"
    using hd by (simp add: SensorTask_UpdateSensor_history_def Let_def)
  have c': "history_count ?s' = min (Suc ?n) 20"
    using cnt by (auto simp add: SensorTask_UpdateSensor_history_def Let_def min_def)
  have d': "history_head ?s' = Suc ?n mod 20"
    using hd by (simp add: SensorTask_UpdateSensor_history_def Let_def mod_Suc_eq)
  have e': "history ?s' ! (k mod 20) = (ws @ [p]) ! k" if "Suc ?n - 20 \<le> k" and "k < Suc ?n" for k
  proof (cases "k = ?n")
    case True
    then show ?thesis using len by (simp add: h')
  next
    case False
    with that have lt: "k < ?n" and near: "?n < k + 20" by simp_all
    then have "k mod 20 \<noteq> ?n mod 20" by (rule mod_window_distinct)
    moreover have "?n - 20 \<le> k" using that by simp
    ultimately show ?thesis
      using lt old [of k] by (simp add: h' nth_append)
  qed
  show ?thesis
    using len c' d' e' by (simp add: ring_holds_def h')
qed

subsection \<open>The copy loop\<close>

lemma copy_history_length [simp]:
  "length (copy_history buf r i n ordered) = length ordered"
  by (induction n arbitrary: r i ordered) simp_all

lemma copy_history_below:
  "k < i \<Longrightarrow> copy_history buf r i n ordered ! k = ordered ! k"
  by (induction n arbitrary: r i ordered) simp_all

lemma copy_history_nth:
  assumes "j < n" and "i + n \<le> length ordered" and "r < 20"
  shows "copy_history buf r i n ordered ! (i + j) = buf ! ((r + j) mod 20)"
  using assms
proof (induction n arbitrary: r i j ordered)
  case 0
  then show ?case by simp
next
  case (Suc n)
  show ?case
  proof (cases j)
    case 0
    with Suc.prems show ?thesis
      by (simp add: copy_history_below)
  next
    case (Suc j')
    with Suc.prems have "copy_history buf ((r + 1) mod 20) (i + 1) n (ordered[i := buf ! r]) ! (i + 1 + j')
                         = buf ! (((r + 1) mod 20 + j') mod 20)"
      by (intro Suc.IH) simp_all
    moreover have "((r + 1) mod 20 + j') mod 20 = (r + Suc j') mod 20"
      by (simp add: mod_add_left_eq)
    ultimately show ?thesis using Suc by simp
  qed
qed

lemma copy_history_take:
  assumes "n \<le> length ordered" and "r < 20"
  shows "take n (copy_history buf r 0 n ordered) = map (\<lambda>j. buf ! ((r + j) mod 20)) [0..<n]"
proof (rule nth_equalityI)
  show "length (take n (copy_history buf r 0 n ordered))
          = length (map (\<lambda>j. buf ! ((r + j) mod 20)) [0..<n])"
    using assms by simp
next
  fix j
  assume "j < length (take n (copy_history buf r 0 n ordered))"
  then have "j < n" by simp
  then show "take n (copy_history buf r 0 n ordered) ! j
               = map (\<lambda>j. buf ! ((r + j) mod 20)) [0..<n] ! j"
    using copy_history_nth [of j n 0 ordered r buf] assms by simp
qed

lemma ring_holds_snapshot:
  assumes "ring_holds ws s" and "length ordered = 20"
  shows "take (history_count s)
           (copy_history (history s)
              (if history_count s < SENSOR_HISTORY_SIZE then 0 else history_head s) 0
              (history_count s) ordered)
         = drop (length ws - SENSOR_HISTORY_SIZE) ws"
proof -
  let ?n = "length ws"
  from assms have cnt: "history_count s = min ?n 20" and hd: "history_head s = ?n mod 20"
    and old: "\<And>k. ?n - 20 \<le> k \<Longrightarrow> k < ?n \<Longrightarrow> history s ! (k mod 20) = ws ! k"
    by (simp_all add: ring_holds_def)
  let ?r = "if history_count s < 20 then 0 else history_head s"
  have r: "?r < 20" using hd by simp
  have "take (min ?n 20) (copy_history (history s) ?r 0 (min ?n 20) ordered)
          = map (\<lambda>j. history s ! ((?r + j) mod 20)) [0..<min ?n 20]"
    using assms(2) r by (intro copy_history_take) simp_all
  also have "\<dots> = drop (?n - 20) ws"
  proof (rule nth_equalityI)
    show "length (map (\<lambda>j. history s ! ((?r + j) mod 20)) [0..<min ?n 20]) = length (drop (?n - 20) ws)"
      by simp
  next
    fix j
    assume "j < length (map (\<lambda>j. history s ! ((?r + j) mod 20)) [0..<min ?n 20])"
    then have j: "j < min ?n 20" by simp
    have "(?r + j) mod 20 = (?n - 20 + j) mod 20"
    proof (cases "?n < 20")
      case True
      then show ?thesis using cnt by simp
    next
      case False
      then have "?n - 20 + j + 20 = ?n + j" by simp
      then have "(?n + j) mod 20 = (?n - 20 + j) mod 20"
        by (metis mod_add_self2)
      then show ?thesis using False cnt hd by (simp add: mod_add_left_eq)
    qed
    moreover have "history s ! ((?n - 20 + j) mod 20) = ws ! (?n - 20 + j)"
      using window_index [OF j] by (intro old)
    ultimately show "map (\<lambda>j. history s ! ((?r + j) mod 20)) [0..<min ?n 20] ! j = drop (?n - 20) ws ! j"
      using j by simp
  qed
  finally show ?thesis using cnt by simp
qed

lemma ring_holds_cong:
  assumes "history s' = history s" and "history_head s' = history_head s"
    and "history_count s' = history_count s"
  shows "ring_holds ws s' = ring_holds ws s"
  using assms by (simp add: ring_holds_def)

lemma primary_value_cong:
  assumes "type a = type b" and "data a = data b"
  shows "primary_value a = primary_value b"
  using assms by (simp add: primary_value_def)

lemma UpdateSensor_locked_data:
  "data (SensorTask_UpdateSensor_locked t x) = (data x)\<lparr>timestamp := t, is_valid := True\<rparr>"
  by (simp add: SensorTask_UpdateSensor_locked_def Let_def)

lemma ring_holds_locked:
  assumes "ring_holds ws s"
  shows "ring_holds (ws @ [primary_value (SensorTask_UpdateSensor_locked t s)])
           (SensorTask_UpdateSensor_locked t s)"
proof -
  let ?s2 = "s\<lparr>data := (data s)\<lparr>timestamp := t, is_valid := True\<rparr>, error_count := 0\<rparr>"
  have p: "primary_value (SensorTask_UpdateSensor_locked t s) = primary_value ?s2"
    by (rule primary_value_cong) (simp_all add: UpdateSensor_locked_data)
  have "ring_holds ws ?s2"
    using assms by (simp add: ring_holds_def)
  then have "ring_holds (ws @ [primary_value ?s2])
               (SensorTask_UpdateSensor_history (primary_value ?s2) (secondary_value ?s2) ?s2)"
    by (rule ring_holds_history)
  then have "ring_holds (ws @ [primary_value ?s2]) (SensorTask_UpdateSensor_locked t s)"
    by (simp add: SensorTask_UpdateSensor_locked_def Let_def ring_holds_def)
  with p show ?thesis by simp
qed

lemma keeps_analyticsD:
  assumes "keeps_analytics f"
  shows "type (snd (f s)) = type s" "is_enabled (snd (f s)) = is_enabled s"
    "history (snd (f s)) = history s" "secondary_history (snd (f s)) = secondary_history s"
    "history_head (snd (f s)) = history_head s" "history_count (snd (f s)) = history_count s"
    "stats (snd (f s)) = stats s" "secondary_stats (snd (f s)) = secondary_stats s"
  using assms by (simp_all add: keeps_analytics_def)

lemma UpdateSensor_ok_known:
  assumes "fst (SensorTask_UpdateSensor i t st)" and "type (sensors st i) = i"
    and "read_func (callbacks st i) = Some f"
  shows "snd (SensorTask_UpdateSensor i t st)
           = st\<lparr>sensors := (sensors st)
               (i := SensorTask_UpdateSensor_locked t (snd (f (sensors st i))))\<rparr>"
  using UpdateSensor_ok [OF assms(1)] assms(2,3) by auto

lemma feed_Cons_Some:
  assumes "feed i (t # ts) st = Some (vs, st')"
  shows "fst (SensorTask_UpdateSensor i t st)
         \<and> (\<exists>vs1. feed i ts (snd (SensorTask_UpdateSensor i t st)) = Some (vs1, st')
                  \<and> vs = primary_value (sensors (snd (SensorTask_UpdateSensor i t st)) i) # vs1)"
  using assms by (auto simp add: feed.simps split: if_splits option.splits)

lemma feed_ring:
  assumes "feed i ts st = Some (vs, st')" and "type (sensors st i) = i"
    and "read_func (callbacks st i) = Some f" and "keeps_analytics f"
    and "ring_holds ws (sensors st i)"
  shows "ring_holds (ws @ vs) (sensors st' i) \<and> type (sensors st' i) = i
         \<and> is_enabled (sensors st' i) = is_enabled (sensors st i)
         \<and> callbacks st' = callbacks st \<and> is_initialized st' = is_initialized st
         \<and> ordered_primary_history st' = ordered_primary_history st
         \<and> length vs = length ts"
  using assms
proof (induction ts arbitrary: st vs ws)
  case Nil
  then show ?case by (simp add: feed.simps)
next
  case (Cons t ts)
  let ?st1 = "snd (SensorTask_UpdateSensor i t st)"
  from feed_Cons_Some [OF Cons.prems(1)] obtain vs1 where
    ok: "fst (SensorTask_UpdateSensor i t st)" and rest: "feed i ts ?st1 = Some (vs1, st')"
    and vs: "vs = primary_value (sensors ?st1 i) # vs1"
    by blast
  let ?s1 = "snd (f (sensors st i))"
  have st1: "?st1 = st\<lparr>sensors := (sensors st)(i := SensorTask_UpdateSensor_locked t ?s1)\<rparr>"
    using ok Cons.prems(2,3) by (rule UpdateSensor_ok_known)
  have s1: "sensors ?st1 i = SensorTask_UpdateSensor_locked t ?s1"
    by (simp add: st1)
  have "ring_holds ws ?s1"
    using Cons.prems(5) keeps_analyticsD [OF Cons.prems(4)]
    by (simp add: ring_holds_cong [of ?s1 "sensors st i"])
  then have r1: "ring_holds (ws @ [primary_value (sensors ?st1 i)]) (sensors ?st1 i)"
    unfolding s1 by (rule ring_holds_locked)
  have t1: "type (sensors ?st1 i) = i"
    using Cons.prems(2) keeps_analyticsD(1) [OF Cons.prems(4)] by (simp add: s1)
  have e1: "is_enabled (sensors ?st1 i) = is_enabled (sensors st i)"
    using keeps_analyticsD(2) [OF Cons.prems(4)] by (simp add: s1)
  have c1: "callbacks ?st1 = callbacks st" "is_initialized ?st1 = is_initialized st"
    "ordered_primary_history ?st1 = ordered_primary_history st"
    by (simp_all add: st1)
  have f1: "read_func (callbacks ?st1 i) = Some f"
    using Cons.prems(3) by (simp add: c1)
  from Cons.IH [OF rest t1 f1 Cons.prems(4) r1] show ?case
    using vs e1 c1 by simp
qed

lemma primary_history_eq:
  assumes "is_initialized st" and "ty < SENSOR_TYPE_MAX" and "is_enabled (sensors st ty)"
    and "ring_holds ws (sensors st ty)" and "length (ordered_primary_history st) = SENSOR_HISTORY_SIZE"
  shows "primary_history True ty st
           = Some (min (length ws) SENSOR_HISTORY_SIZE, drop (length ws - SENSOR_HISTORY_SIZE) ws)"
proof (cases "ws = []")
  case True
  with assms show ?thesis
    by (simp add: primary_history_def SensorTask_GetPrimaryHistory_def ring_holds_def)
next
  case False
  with assms(4) have pos: "0 < history_count (sensors st ty)"
    and cnt: "history_count (sensors st ty) = min (length ws) SENSOR_HISTORY_SIZE"
    by (simp_all add: ring_holds_def)
  have snap: "take (history_count (sensors st ty))
           (copy_history (history (sensors st ty))
              (if history_count (sensors st ty) < SENSOR_HISTORY_SIZE then 0
               else history_head (sensors st ty)) 0
              (history_count (sensors st ty)) (ordered_primary_history st))
         = drop (length ws - SENSOR_HISTORY_SIZE) ws"
    using assms(4,5) by (intro ring_holds_snapshot) simp_all
  have "primary_history True ty st
          = Some (history_count (sensors st ty),
              take (history_count (sensors st ty))
                (copy_history (history (sensors st ty))
                   (if history_count (sensors st ty) < SENSOR_HISTORY_SIZE then 0
                    else history_head (sensors st ty)) 0
                   (history_count (sensors st ty)) (ordered_primary_history st)))"
    using assms(1,2,3) pos
    by (simp add: primary_history_def SensorTask_GetPrimaryHistory_def Let_def)
  then have "primary_history True ty st
          = Some (history_count (sensors st ty), drop (length ws - SENSOR_HISTORY_SIZE) ws)"
    by (simp only: snap)
  then show ?thesis by (simp only: cnt)
qed

subsection \<open>The history query after a sequence of reads\<close>

text \<open>
  Claim C3. Take a kind below \<^verbatim>\<open>SENSOR_TYPE_MAX\<close> whose instance is enabled on an
  initialised registry, with a read adapter that leaves the analytics block alone, and
  start from the empty history that \<^verbatim>\<open>SensorTask_Init\<close> leaves. After a sequence of
  \<open>n\<close> successful reads, \<^verbatim>\<open>SensorTask_GetPrimaryHistory\<close> (called with a valid
  out-pointer, the data mutex obtained) returns the count \<open>min n H\<close> with
  \<open>H = SENSOR_HISTORY_SIZE = 20\<close> and, behind the pointer, the last \<open>min n H\<close> primary
  values that were read, oldest first. For \<open>n \<le> H\<close> these are the \<open>n\<close> values fed, in
  order; for \<open>n = H + k\<close> with \<open>k > 0\<close> they are exactly the most recent \<open>H\<close>.
\<close>

theorem GetPrimaryHistory_after_reads:
  assumes "is_initialized st" and "ty < SENSOR_TYPE_MAX" and "type (sensors st ty) = ty"
    and "is_enabled (sensors st ty)"
    and "read_func (callbacks st ty) = Some f" and "keeps_analytics f"
    and "history_count (sensors st ty) = 0" and "history_head (sensors st ty) = 0"
    and "length (history (sensors st ty)) = SENSOR_HISTORY_SIZE"
    and "length (ordered_primary_history st) = SENSOR_HISTORY_SIZE"
    and "feed ty ts st = Some (vs, st')"
  shows "length vs = length ts
         \<and> primary_history True ty st'
             = Some (min (length vs) SENSOR_HISTORY_SIZE, drop (length vs - SENSOR_HISTORY_SIZE) vs)"
proof -
  have "ring_holds [] (sensors st ty)"
    using assms(7,8,9) by (rule ring_holds_fresh)
  from feed_ring [OF assms(11,3,5,6) this]
  have r: "ring_holds vs (sensors st' ty)" and e: "is_enabled (sensors st' ty)"
    and i: "is_initialized st'" and o: "length (ordered_primary_history st') = SENSOR_HISTORY_SIZE"
    and l: "length vs = length ts"
    using assms(1,4,10) by simp_all
  from primary_history_eq [OF i assms(2) e r o] l show ?thesis by simp
qed

subsection \<open>The fake adapter feeds its script\<close>

lemma UpdateSensor_history_device [simp]:
  "device_handle (SensorTask_UpdateSensor_history p q x) = device_handle x"
  by (simp add: SensorTask_UpdateSensor_history_def Let_def)

lemma UpdateSensor_stats_device [simp]:
  "device_handle (SensorTask_UpdateSensor_stats p q x) = device_handle x"
  by (simp add: SensorTask_UpdateSensor_stats_def Let_def case_prod_beta)

lemma UpdateSensor_locked_device [simp]:
  "device_handle (SensorTask_UpdateSensor_locked t x) = device_handle x"
  by (simp add: SensorTask_UpdateSensor_locked_def Let_def)

lemma fake_read_cases:
  "fake_read s = (False, s)
   \<or> (\<exists>rest. fake_read s = (False, s\<lparr>device_handle := Some rest\<rparr>))
   \<or> (\<exists>d rest. fake_read s = (True, s\<lparr>data := d, device_handle := Some rest\<rparr>))"
proof (cases "device_handle s")
  case None
  then show ?thesis by (simp add: fake_read_def)
next
  case (Some l)
  show ?thesis
  proof (cases l)
    case Nil
    with Some show ?thesis by (simp add: fake_read_def)
  next
    case (Cons a rest)
    show ?thesis
    proof (cases a)
      case None
      with Some Cons have "fake_read s = (False, s\<lparr>device_handle := Some rest\<rparr>)"
        by (simp add: fake_read_def)
      then show ?thesis by blast
    next
      case (Some v)
      with \<open>device_handle s = Some l\<close> Cons
      have "fake_read s
              = (True, s\<lparr>data := (data s)\<lparr>data_values :=
                           \<lparr>gy30_lux = v, sht30_temp = v, sht30_humi = 50, smoke_ppm = 7\<rparr>\<rparr>,
                         device_handle := Some rest\<rparr>)"
        by (simp add: fake_read_def)
      then show ?thesis by blast
    qed
  qed
qed

lemma fake_read_keeps_analytics: "keeps_analytics fake_read"
  unfolding keeps_analytics_def
proof
  fix s :: "real option list SensorInstance_t"
  from fake_read_cases [of s]
  show "type (snd (fake_read s)) = type s \<and> is_enabled (snd (fake_read s)) = is_enabled s
          \<and> history (snd (fake_read s)) = history s
          \<and> secondary_history (snd (fake_read s)) = secondary_history s
          \<and> history_head (snd (fake_read s)) = history_head s
          \<and> history_count (snd (fake_read s)) = history_count s
          \<and> stats (snd (fake_read s)) = stats s \<and> secondary_stats (snd (fake_read s)) = secondary_stats s"
    by (elim disjE exE) simp_all
qed

lemma fake_read_next:
  assumes "device_handle s = Some (Some v # rest)" and "type s = 1"
  shows "fst (fake_read s)" "device_handle (snd (fake_read s)) = Some rest"
    "type (snd (fake_read s)) = 1"
    "primary_value (SensorTask_UpdateSensor_locked t (snd (fake_read s))) = v"
  using assms
  by (simp_all add: fake_read_def primary_value_def UpdateSensor_locked_data)

lemma feed_fake:
  assumes "callbacks st 1 = fake_callbacks" and "type (sensors st 1) = 1"
    and "device_handle (sensors st 1) = Some (map Some vs)" and "length ts = length vs"
  shows "map_option fst (feed 1 ts st) = Some vs"
  using assms
proof (induction vs arbitrary: ts st)
  case Nil
  then show ?case by (simp add: feed.simps)
next
  case (Cons v vs)
  from Cons.prems(4) obtain t ts' where ts: "ts = t # ts'" and len: "length ts' = length vs"
    by (cases ts) simp_all
  have rf: "read_func (callbacks st 1) = Some fake_read"
    using Cons.prems(1) by (simp add: fake_callbacks_def)
  have dh: "device_handle (sensors st 1) = Some (Some v # map Some vs)"
    using Cons.prems(3) by simp
  note nx = fake_read_next [OF dh Cons.prems(2)]
  have ok: "fst (SensorTask_UpdateSensor 1 t st)"
    using rf nx(1) Cons.prems(2) by (simp add: SensorTask_UpdateSensor_def Let_def)
  let ?st1 = "snd (SensorTask_UpdateSensor 1 t st)"
  have st1: "?st1 = st\<lparr>sensors := (sensors st)
               (1 := SensorTask_UpdateSensor_locked t (snd (fake_read (sensors st 1))))\<rparr>"
    using ok Cons.prems(2) rf by (rule UpdateSensor_ok_known)
  have c1: "callbacks ?st1 1 = fake_callbacks" and t1: "type (sensors ?st1 1) = 1"
    and d1: "device_handle (sensors ?st1 1) = Some (map Some vs)"
    unfolding st1 using Cons.prems(1) nx(2,3) by simp_all
  have "map_option fst (feed 1 ts' ?st1) = Some vs"
    using c1 t1 d1 len by (rule Cons.IH)
  moreover have "primary_value (sensors ?st1 1) = v"
    unfolding st1 using nx(4) [of t] by simp
  ultimately show ?case
    using ok by (auto simp add: ts feed.simps split: option.splits)
qed

lemma feed_the:
  assumes "map_option fst (feed i ts st) = Some vs"
  shows "feed i ts st = Some (vs, snd (the (feed i ts st)))"
  using assms by (cases "feed i ts st") auto

lemma demo_registered_instance:
  "sensors (demo_registered script interval) 1
     = zero_instance\<lparr>type := 1, name := ''GY30'', status := SENSOR_STATUS_INITIALIZING,
                     update_interval_ms := interval, is_enabled := True,
                     device_handle := Some script\<rparr>"
  using demo_init_initialized
  by (simp add: demo_registered_def SensorTask_RegisterSensor_def SensorTask_EnableSensor_def
        Let_def fake_callbacks_def demo_init_def SensorTask_RegisterEventCallback_def
        SensorTask_Init_def boot_state_def upt_SENSOR_TYPE_MAX SensorTask_Init_slot_def
        zero_instance_def)

lemma demo_registered_fields:
  "is_initialized (demo_registered script interval)"
  "callbacks (demo_registered script interval) 1 = fake_callbacks"
  "length (ordered_primary_history (demo_registered script interval)) = 20"
  using demo_init_initialized
  by (simp_all add: demo_registered_def SensorTask_RegisterSensor_def SensorTask_EnableSensor_def
        Let_def fake_callbacks_def demo_init_def SensorTask_RegisterEventCallback_def
        SensorTask_Init_def boot_state_def SensorTask_NotifyEvent_def)

theorem GetPrimaryHistory_after_reads_witness:
  "(feed SENSOR_TYPE_GY30 [0, 0, 0] (demo_registered [Some 10, Some 20, Some 30] 0)
     = Some ([10, 20, 30],
          snd (the (feed SENSOR_TYPE_GY30 [0, 0, 0] (demo_registered [Some 10, Some 20, Some 30] 0))))
   \<and> primary_history True SENSOR_TYPE_GY30
       (snd (the (feed SENSOR_TYPE_GY30 [0, 0, 0] (demo_registered [Some 10, Some 20, Some 30] 0))))
     = Some (3, [10, 20, 30]))
   \<and> (feed SENSOR_TYPE_GY30 (replicate 22 0)
       (demo_registered (map Some [1, 2, 3, 4, 5, 6, 7, 8, 9, 10, 11, 12, 13, 14, 15, 16, 17, 18,
                                    19, 20, 21, 22]) 0)
     = Some ([1, 2, 3, 4, 5, 6, 7, 8, 9, 10, 11, 12, 13, 14, 15, 16, 17, 18, 19, 20, 21, 22],
          snd (the (feed SENSOR_TYPE_GY30 (replicate 22 0)
            (demo_registered (map Some [1, 2, 3, 4, 5, 6, 7, 8, 9, 10, 11, 12, 13, 14, 15, 16, 17,
                                         18, 19, 20, 21, 22]) 0))))
   \<and> primary_history True SENSOR_TYPE_GY30
       (snd (the (feed SENSOR_TYPE_GY30 (replicate 22 0)
            (demo_registered (map Some [1, 2, 3, 4, 5, 6, 7, 8, 9, 10, 11, 12, 13, 14, 15, 16, 17,
                                         18, 19, 20, 21, 22]) 0))))
     = Some (20, [3, 4, 5, 6, 7, 8, 9, 10, 11, 12, 13, 14, 15, 16, 17, 18, 19, 20, 21, 22]))"
proof -
  have a: "feed SENSOR_TYPE_GY30 [0, 0, 0] (demo_registered [Some 10, Some 20, Some 30] 0)
     = Some ([10, 20, 30],
          snd (the (feed SENSOR_TYPE_GY30 [0, 0, 0] (demo_registered [Some 10, Some 20, Some 30] 0))))
   \<and> primary_history True SENSOR_TYPE_GY30
       (snd (the (feed SENSOR_TYPE_GY30 [0, 0, 0] (demo_registered [Some 10, Some 20, Some 30] 0))))
     = Some (3, [10, 20, 30])"
  proof -
    let ?D = "demo_registered [Some 10, Some 20, Some 30] 0"
    have i: "sensors ?D 1 = zero_instance\<lparr>type := 1, name := ''GY30'',
               status := SENSOR_STATUS_INITIALIZING, update_interval_ms := 0, is_enabled := True,
               device_handle := Some [Some 10, Some 20, Some 30]\<rparr>"
      by (rule demo_registered_instance)
    have c: "callbacks ?D 1 = fake_callbacks" and n: "is_initialized ?D"
      and o: "length (ordered_primary_history ?D) = SENSOR_HISTORY_SIZE"
      using demo_registered_fields [of "[Some 10, Some 20, Some 30]" 0] by simp_all
    have t: "type (sensors ?D 1) = 1" and e: "is_enabled (sensors ?D 1)"
      and d: "device_handle (sensors ?D 1) = Some (map Some [10, 20, 30])"
      and hc: "history_count (sensors ?D 1) = 0" and hh: "history_head (sensors ?D 1) = 0"
      and hl: "length (history (sensors ?D 1)) = SENSOR_HISTORY_SIZE"
      unfolding i by (simp_all add: zero_instance_def)
    have r: "read_func (callbacks ?D 1) = Some fake_read"
      unfolding c by (simp add: fake_callbacks_def)
    have m: "(1::nat) < SENSOR_TYPE_MAX" by simp
    have "map_option fst (feed 1 [0, 0, 0] ?D) = Some [10, 20, 30]"
      using c t d by (rule feed_fake) simp
    then have f: "feed 1 [0, 0, 0] ?D = Some ([10, 20, 30], snd (the (feed 1 [0, 0, 0] ?D)))"
      by (rule feed_the)
    have "length [10, 20, 30 :: real] = length [0, 0, 0 :: 32 word]
          \<and> primary_history True 1 (snd (the (feed 1 [0, 0, 0] ?D)))
            = Some (min (length [10, 20, 30 :: real]) SENSOR_HISTORY_SIZE,
                    drop (length [10, 20, 30 :: real] - SENSOR_HISTORY_SIZE) [10, 20, 30])"
      by (rule GetPrimaryHistory_after_reads [OF n m t e r fake_read_keeps_analytics hc hh hl o f])
    with f show ?thesis by simp
  qed
  have b: "feed SENSOR_TYPE_GY30 (replicate 22 0)
       (demo_registered (map Some [1, 2, 3, 4, 5, 6, 7, 8, 9, 10, 11, 12, 13, 14, 15, 16, 17, 18,
                                    19, 20, 21, 22]) 0)
     = Some ([1, 2, 3, 4, 5, 6, 7, 8, 9, 10, 11, 12, 13, 14, 15, 16, 17, 18, 19, 20, 21, 22],
          snd (the (feed SENSOR_TYPE_GY30 (replicate 22 0)
            (demo_registered (map Some [1, 2, 3, 4, 5, 6, 7, 8, 9, 10, 11, 12, 13, 14, 15, 16, 17,
                                         18, 19, 20, 21, 22]) 0))))
   \<and> primary_history True SENSOR_TYPE_GY30
       (snd (the (feed SENSOR_TYPE_GY30 (replicate 22 0)
            (demo_registered (map Some [1, 2, 3, 4, 5, 6, 7, 8, 9, 10, 11, 12, 13, 14, 15, 16, 17,
                                         18, 19, 20, 21, 22]) 0))))
     = Some (20, [3, 4, 5, 6, 7, 8, 9, 10, 11, 12, 13, 14, 15, 16, 17, 18, 19, 20, 21, 22])"
  proof -
    let ?vs = "[1, 2, 3, 4, 5, 6, 7, 8, 9, 10, 11, 12, 13, 14, 15, 16, 17, 18, 19, 20, 21, 22 :: real]"
    let ?D = "demo_registered (map Some ?vs) 0"
    let ?ts = "replicate 22 (0 :: 32 word)"
    have i: "sensors ?D 1 = zero_instance\<lparr>type := 1, name := ''GY30'',
               status := SENSOR_STATUS_INITIALIZING, update_interval_ms := 0, is_enabled := True,
               device_handle := Some (map Some ?vs)\<rparr>"
      by (rule demo_registered_instance)
    have c: "callbacks ?D 1 = fake_callbacks" and n: "is_initialized ?D"
      and o: "length (ordered_primary_history ?D) = SENSOR_HISTORY_SIZE"
      using demo_registered_fields [of "map Some ?vs" 0] by simp_all
    have t: "type (sensors ?D 1) = 1" and e: "is_enabled (sensors ?D 1)"
      and d: "device_handle (sensors ?D 1) = Some (map Some ?vs)"
      and hc: "history_count (sensors ?D 1) = 0" and hh: "history_head (sensors ?D 1) = 0"
      and hl: "length (history (sensors ?D 1)) = SENSOR_HISTORY_SIZE"
      unfolding i by (simp_all add: zero_instance_def)
    have r: "read_func (callbacks ?D 1) = Some fake_read"
      unfolding c by (simp add: fake_callbacks_def)
    have m: "(1::nat) < SENSOR_TYPE_MAX" by simp
    have "map_option fst (feed 1 ?ts ?D) = Some ?vs"
      using c t d by (rule feed_fake) simp
    then have f: "feed 1 ?ts ?D = Some (?vs, snd (the (feed 1 ?ts ?D)))"
      by (rule feed_the)
    have "length ?vs = length ?ts
          \<and> primary_history True 1 (snd (the (feed 1 ?ts ?D)))
            = Some (min (length ?vs) SENSOR_HISTORY_SIZE, drop (length ?vs - SENSOR_HISTORY_SIZE) ?vs)"
      by (rule GetPrimaryHistory_after_reads [OF n m t e r fake_read_keeps_analytics hc hh hl o f])
    with f show ?thesis by simp
  qed
  from a b show ?thesis by blast
qed

subsection \<open>Lifetime statistics\<close>

lemma UpdateSensor_history_count:
  "history_count (SensorTask_UpdateSensor_history p q x)
     = (if history_count x < SENSOR_HISTORY_SIZE then history_count x + 1 else history_count x)"
  by (simp add: SensorTask_UpdateSensor_history_def Let_def)

lemma UpdateSensor_stats_first:
  assumes "history_count x = 1"
  shows "stats (SensorTask_UpdateSensor_stats p q x)
           = (stats x)\<lparr>min_stat := p, max_stat := p, avg := p\<rparr>"
  using assms by (simp add: SensorTask_UpdateSensor_stats_def Let_def)

lemma UpdateSensor_stats_lifetime:
  assumes "history_count x \<noteq> 1"
  shows "min_stat (stats (SensorTask_UpdateSensor_stats p q x))
           = (if p < min_stat (stats x) then p else min_stat (stats x))"
    and "max_stat (stats (SensorTask_UpdateSensor_stats p q x))
           = (if p > max_stat (stats x) then p else max_stat (stats x))"
    and "min_stat (secondary_stats (SensorTask_UpdateSensor_stats p q x))
           = (if type x = SENSOR_TYPE_SHT30 \<and> q < min_stat (secondary_stats x) then q
              else min_stat (secondary_stats x))"
    and "max_stat (secondary_stats (SensorTask_UpdateSensor_stats p q x))
           = (if type x = SENSOR_TYPE_SHT30 \<and> q > max_stat (secondary_stats x) then q
              else max_stat (secondary_stats x))"
  using assms by (simp_all add: SensorTask_UpdateSensor_stats_def Let_def case_prod_beta)

lemma UpdateSensor_locked_count:
  "history_count (SensorTask_UpdateSensor_locked t x)
     = (if history_count x < SENSOR_HISTORY_SIZE then history_count x + 1 else history_count x)"
  by (simp add: SensorTask_UpdateSensor_locked_def Let_def UpdateSensor_history_count)

lemma UpdateSensor_locked_widen:
  assumes "1 \<le> history_count x"
  shows "min_stat (stats (SensorTask_UpdateSensor_locked t x)) \<le> min_stat (stats x)"
    and "max_stat (stats x) \<le> max_stat (stats (SensorTask_UpdateSensor_locked t x))"
    and "min_stat (secondary_stats (SensorTask_UpdateSensor_locked t x))
           \<le> min_stat (secondary_stats x)"
    and "max_stat (secondary_stats x)
           \<le> max_stat (secondary_stats (SensorTask_UpdateSensor_locked t x))"
    and "1 \<le> history_count (SensorTask_UpdateSensor_locked t x)"
proof -
  let ?x2 = "x\<lparr>data := (data x)\<lparr>timestamp := t, is_valid := True\<rparr>, error_count := 0\<rparr>"
  let ?x3 = "SensorTask_UpdateSensor_history (primary_value ?x2) (secondary_value ?x2) ?x2"
  have l: "SensorTask_UpdateSensor_locked t x
             = SensorTask_UpdateSensor_stats (primary_value ?x2) (secondary_value ?x2) ?x3"
    by (simp add: SensorTask_UpdateSensor_locked_def Let_def)
  have c: "history_count ?x3 \<noteq> 1"
    using assms by (simp add: UpdateSensor_history_count)
  have s: "stats ?x3 = stats x" "secondary_stats ?x3 = secondary_stats x"
    by simp_all
  show "min_stat (stats (SensorTask_UpdateSensor_locked t x)) \<le> min_stat (stats x)"
    "max_stat (stats x) \<le> max_stat (stats (SensorTask_UpdateSensor_locked t x))"
    "min_stat (secondary_stats (SensorTask_UpdateSensor_locked t x))
           \<le> min_stat (secondary_stats x)"
    "max_stat (secondary_stats x)
           \<le> max_stat (secondary_stats (SensorTask_UpdateSensor_locked t x))"
    unfolding l UpdateSensor_stats_lifetime [OF c] s by simp_all
  show "1 \<le> history_count (SensorTask_UpdateSensor_locked t x)"
    using assms by (simp add: UpdateSensor_locked_count)
qed

lemma feed_widen:
  assumes "feed i ts st = Some (vs, st')" and "type (sensors st i) = i"
    and "read_func (callbacks st i) = Some f" and "keeps_analytics f"
    and "1 \<le> history_count (sensors st i)"
  shows "min_stat (stats (sensors st' i)) \<le> min_stat (stats (sensors st i))
         \<and> max_stat (stats (sensors st i)) \<le> max_stat (stats (sensors st' i))
         \<and> min_stat (secondary_stats (sensors st' i)) \<le> min_stat (secondary_stats (sensors st i))
         \<and> max_stat (secondary_stats (sensors st i)) \<le> max_stat (secondary_stats (sensors st' i))"
  using assms
proof (induction ts arbitrary: st vs)
  case Nil
  then show ?case by (simp add: feed.simps)
next
  case (Cons t ts)
  let ?st1 = "snd (SensorTask_UpdateSensor i t st)"
  from feed_Cons_Some [OF Cons.prems(1)] obtain vs1 where
    ok: "fst (SensorTask_UpdateSensor i t st)" and rest: "feed i ts ?st1 = Some (vs1, st')"
    by blast
  let ?s1 = "snd (f (sensors st i))"
  note k = keeps_analyticsD [OF Cons.prems(4), of "sensors st i"]
  have st1: "?st1 = st\<lparr>sensors := (sensors st)(i := SensorTask_UpdateSensor_locked t ?s1)\<rparr>"
    using ok Cons.prems(2,3) by (rule UpdateSensor_ok_known)
  have s1: "sensors ?st1 i = SensorTask_UpdateSensor_locked t ?s1"
    by (simp add: st1)
  have c: "1 \<le> history_count ?s1"
    using Cons.prems(5) k by simp
  note w = UpdateSensor_locked_widen [OF c, of t]
  have t1: "type (sensors ?st1 i) = i"
    using Cons.prems(2) k by (simp add: s1)
  have f1: "read_func (callbacks ?st1 i) = Some f"
    using Cons.prems(3) by (simp add: st1)
  have c1: "1 \<le> history_count (sensors ?st1 i)"
    unfolding s1 by (rule w(5))
  from Cons.IH [OF rest t1 f1 Cons.prems(4) c1] w(1-4) k(7,8) show ?case
    unfolding s1 by simp
qed

text \<open>
  Claim C6. For every kind, across any sequence of successful reads of an instance that
  already holds a sample, the lifetime minimum does not increase and the lifetime maximum
  does not decrease, for the primary and for the secondary statistics. The sequence may
  be longer than the history window, so the values that set the extremes may have been
  overwritten there.
\<close>

theorem lifetime_extremes_widen:
  assumes "type (sensors st ty) = ty" and "read_func (callbacks st ty) = Some f"
    and "keeps_analytics f" and "1 \<le> history_count (sensors st ty)"
    and "feed ty ts st = Some (vs, st')"
  shows "min_stat (stats (sensors st' ty)) \<le> min_stat (stats (sensors st ty))
         \<and> max_stat (stats (sensors st ty)) \<le> max_stat (stats (sensors st' ty))
         \<and> min_stat (secondary_stats (sensors st' ty)) \<le> min_stat (secondary_stats (sensors st ty))
         \<and> max_stat (secondary_stats (sensors st ty)) \<le> max_stat (secondary_stats (sensors st' ty))"
  using assms(5,1,2,3,4) by (rule feed_widen)

subsection \<open>The first sample\<close>

lemma MainLoop_update_ok:
  assumes "update_interval_ms (sensors st i) \<le> t1 - last_update_time (sensors st i)"
    and "fst (SensorTask_UpdateSensor i t2 st)"
  shows "SensorTask_MainLoop_update i t1 t2 st
           = SensorTask_NotifyEvent SENSOR_EVENT_DATA_UPDATE i
               (Some (data (sensors (snd (SensorTask_UpdateSensor i t2 st)) i)))
               (status (sensors (snd (SensorTask_UpdateSensor i t2 st)) i))
               ((snd (SensorTask_UpdateSensor i t2 st))
                  \<lparr>sensors := (sensors (snd (SensorTask_UpdateSensor i t2 st)))
                     (i := (sensors (snd (SensorTask_UpdateSensor i t2 st)) i)
                             \<lparr>last_update_time := t1\<rparr>)\<rparr>)"
  using assms by (simp add: SensorTask_MainLoop_update_def case_prod_beta Let_def)

lemma gy30_sweep_first_read:
  assumes "gy30_run (Some v # rest) n SENSOR_STATUS_INITIALIZING st"
  shows "sensors (SensorTask_MainLoop_sweep (\<lambda>_. (0, 0, 0)) st) 1
           = (SensorTask_UpdateSensor_locked 0
                (snd (fake_read ((sensors st 1)\<lparr>status := SENSOR_STATUS_ONLINE,
                                                 last_update_time := 0\<rparr>))))
             \<lparr>last_update_time := 0\<rparr>"
    and "callbacks (SensorTask_MainLoop_sweep (\<lambda>_. (0, 0, 0)) st) = callbacks st"
    and "is_initialized (SensorTask_MainLoop_sweep (\<lambda>_. (0, 0, 0)) st)"
    and "ordered_primary_history (SensorTask_MainLoop_sweep (\<lambda>_. (0, 0, 0)) st)
           = ordered_primary_history st"
proof -
  let ?st2 = "SensorTask_NotifyEvent SENSOR_EVENT_STATUS_CHANGE 1 None SENSOR_STATUS_ONLINE
                (st\<lparr>sensors := (sensors st)(1 := (sensors st 1)\<lparr>status := SENSOR_STATUS_ONLINE,
                                                                  last_update_time := 0\<rparr>)\<rparr>)"
  have r2: "gy30_run (Some v # rest) n SENSOR_STATUS_ONLINE ?st2"
    using assms by (rule gy30_run_after_init)
  note f2 = gy30_run_fields [OF r2]
  have ok: "fst (SensorTask_UpdateSensor 1 0 ?st2)"
    using r2 by (rule gy30_read_ok)
  have rf: "read_func (callbacks ?st2 1) = Some fake_read"
    using f2(3) by (simp add: fake_callbacks_def)
  have u: "snd (SensorTask_UpdateSensor 1 0 ?st2)
             = ?st2\<lparr>sensors := (sensors ?st2)
                 (1 := SensorTask_UpdateSensor_locked 0 (snd (fake_read (sensors ?st2 1))))\<rparr>"
    using ok f2(4) rf by (rule UpdateSensor_ok_known)
  have due: "update_interval_ms (sensors ?st2 1) \<le> 0 - last_update_time (sensors ?st2 1)"
    using f2(7) by simp
  have b: "SensorTask_MainLoop_body 1 0 0 0 st = SensorTask_MainLoop_update 1 0 0 ?st2"
    using assms by (rule gy30_body_initializing)
  note m = MainLoop_update_ok [OF due ok, unfolded u]
  have e: "\<not> is_enabled (sensors (SensorTask_MainLoop_body 1 0 0 0 st) 2)"
    "\<not> is_enabled (sensors (SensorTask_MainLoop_body 1 0 0 0 st) 3)"
    unfolding b m using gy30_run_fields [OF assms] assms by (simp_all add: gy30_run_def)
  have sw: "SensorTask_MainLoop_sweep (\<lambda>_. (0, 0, 0)) st = SensorTask_MainLoop_body 1 0 0 0 st"
    using gy30_sweep_is_body [of "\<lambda>_. (0, 0, 0)" st] e by simp
  show "sensors (SensorTask_MainLoop_sweep (\<lambda>_. (0, 0, 0)) st) 1
           = (SensorTask_UpdateSensor_locked 0
                (snd (fake_read ((sensors st 1)\<lparr>status := SENSOR_STATUS_ONLINE,
                                                 last_update_time := 0\<rparr>))))
             \<lparr>last_update_time := 0\<rparr>"
    unfolding sw b m by simp
  show "callbacks (SensorTask_MainLoop_sweep (\<lambda>_. (0, 0, 0)) st) = callbacks st"
    "is_initialized (SensorTask_MainLoop_sweep (\<lambda>_. (0, 0, 0)) st)"
    "ordered_primary_history (SensorTask_MainLoop_sweep (\<lambda>_. (0, 0, 0)) st)
           = ordered_primary_history st"
    unfolding sw b m using gy30_run_fields(1) [OF assms]
    by (simp_all add: SensorTask_NotifyEvent_def)
qed

lemma UpdateSensor_locked_first:
  assumes "history_count x = 0"
  shows "stats (SensorTask_UpdateSensor_locked t x)
           = (stats x)\<lparr>min_stat := primary_value (SensorTask_UpdateSensor_locked t x),
                        max_stat := primary_value (SensorTask_UpdateSensor_locked t x),
                        avg := primary_value (SensorTask_UpdateSensor_locked t x)\<rparr>"
proof -
  let ?x2 = "x\<lparr>data := (data x)\<lparr>timestamp := t, is_valid := True\<rparr>, error_count := 0\<rparr>"
  let ?x3 = "SensorTask_UpdateSensor_history (primary_value ?x2) (secondary_value ?x2) ?x2"
  have l: "SensorTask_UpdateSensor_locked t x
             = SensorTask_UpdateSensor_stats (primary_value ?x2) (secondary_value ?x2) ?x3"
    by (simp add: SensorTask_UpdateSensor_locked_def Let_def)
  have p: "primary_value (SensorTask_UpdateSensor_locked t x) = primary_value ?x2"
    by (rule primary_value_cong) (simp_all add: UpdateSensor_locked_data)
  have c: "history_count ?x3 = 1"
    using assms by (simp add: UpdateSensor_history_count)
  show ?thesis
    unfolding p unfolding l UpdateSensor_stats_first [OF c] by simp
qed

lemma demo_first_fields:
  "is_initialized demo_first"
  "callbacks demo_first 1 = fake_callbacks"
  "type (sensors demo_first 1) = 1"
  "is_enabled (sensors demo_first 1)"
  "device_handle (sensors demo_first 1) = Some [Some 20, Some 30]"
  "history_count (sensors demo_first 1) = 1"
  "stats (sensors demo_first 1) = zero_stats\<lparr>min_stat := 10, max_stat := 10, avg := 10\<rparr>"
  "ring_holds [10] (sensors demo_first 1)"
  "length (ordered_primary_history demo_first) = 20"
proof -
  let ?D = "demo_registered [Some 10, Some 20, Some 30] 0"
  let ?s2 = "(sensors ?D 1)\<lparr>status := SENSOR_STATUS_ONLINE, last_update_time := 0\<rparr>"
  let ?s3 = "snd (fake_read ?s2)"
  let ?X = "SensorTask_UpdateSensor_locked 0 ?s3"
  have d: "demo_first = SensorTask_MainLoop_sweep (\<lambda>_. (0, 0, 0)) ?D"
    by (simp add: demo_first_def demo_sweeps_def)
  have i: "sensors ?D 1 = zero_instance\<lparr>type := 1, name := ''GY30'',
             status := SENSOR_STATUS_INITIALIZING, update_interval_ms := 0, is_enabled := True,
             device_handle := Some [Some 10, Some 20, Some 30]\<rparr>"
    by (rule demo_registered_instance)
  have r: "gy30_run [Some 10, Some 20, Some 30] 0 SENSOR_STATUS_INITIALIZING ?D"
    by (rule demo_registered_run)
  note sw = gy30_sweep_first_read [OF r]
  have x: "sensors demo_first 1 = ?X\<lparr>last_update_time := 0\<rparr>"
    unfolding d by (rule sw(1))
  have dh: "device_handle ?s2 = Some (Some 10 # [Some 20, Some 30])" and ty: "type ?s2 = 1"
    unfolding i by simp_all
  note nx = fake_read_next [OF dh ty]
  note k = keeps_analyticsD [OF fake_read_keeps_analytics, of ?s2]
  have c3: "history_count ?s3 = 0" and h3: "history_head ?s3 = 0"
    and l3: "length (history ?s3) = SENSOR_HISTORY_SIZE" and s3: "stats ?s3 = zero_stats"
    and e3: "is_enabled ?s3"
    unfolding k unfolding i by (simp_all add: zero_instance_def)
  show "is_initialized demo_first" unfolding d by (rule sw(3))
  show "callbacks demo_first 1 = fake_callbacks"
    unfolding d sw(2) by (rule demo_registered_fields(2))
  show "type (sensors demo_first 1) = 1"
    unfolding x using nx(3) by simp
  show "is_enabled (sensors demo_first 1)"
    unfolding x using e3 by simp
  show "device_handle (sensors demo_first 1) = Some [Some 20, Some 30]"
    unfolding x using nx(2) by simp
  show "history_count (sensors demo_first 1) = 1"
    unfolding x using c3 by (simp add: UpdateSensor_locked_count)
  show "stats (sensors demo_first 1) = zero_stats\<lparr>min_stat := 10, max_stat := 10, avg := 10\<rparr>"
    unfolding x using UpdateSensor_locked_first [OF c3, of 0] nx(4) [of 0] s3 by simp
  have "ring_holds [] ?s3" using c3 h3 l3 by (rule ring_holds_fresh)
  then have "ring_holds ([] @ [primary_value ?X]) ?X" by (rule ring_holds_locked)
  then show "ring_holds [10] (sensors demo_first 1)"
    unfolding x using nx(4) [of 0] by (simp add: ring_holds_def)
  show "length (ordered_primary_history demo_first) = 20"
    unfolding d sw(4) by (rule demo_registered_fields(3))
qed

theorem lifetime_extremes_widen_witness:
  "1 \<le> history_count (sensors demo_first SENSOR_TYPE_GY30)
   \<and> min_stat (stats (sensors demo_first SENSOR_TYPE_GY30)) = 10
   \<and> max_stat (stats (sensors demo_first SENSOR_TYPE_GY30)) = 10
   \<and> feed SENSOR_TYPE_GY30 [0, 0] demo_first
       = Some ([20, 30], snd (the (feed SENSOR_TYPE_GY30 [0, 0] demo_first)))
   \<and> min_stat (stats (sensors (snd (the (feed SENSOR_TYPE_GY30 [0, 0] demo_first))) SENSOR_TYPE_GY30))
       \<le> 10
   \<and> 10 \<le> max_stat (stats (sensors (snd (the (feed SENSOR_TYPE_GY30 [0, 0] demo_first)))
                SENSOR_TYPE_GY30))"
proof -
  have d: "device_handle (sensors demo_first 1) = Some (map Some [20, 30])"
    using demo_first_fields(5) by simp
  have "map_option fst (feed 1 [0, 0] demo_first) = Some [20, 30]"
    using demo_first_fields(2,3) d by (rule feed_fake) simp
  then have f: "feed 1 [0, 0] demo_first = Some ([20, 30], snd (the (feed 1 [0, 0] demo_first)))"
    by (rule feed_the)
  have r: "read_func (callbacks demo_first 1) = Some fake_read"
    unfolding demo_first_fields(2) by (simp add: fake_callbacks_def)
  have c: "1 \<le> history_count (sensors demo_first 1)"
    using demo_first_fields(6) by simp
  from lifetime_extremes_widen [OF demo_first_fields(3) r fake_read_keeps_analytics c f]
    f c demo_first_fields(7)
  show ?thesis by (simp add: zero_stats_def)
qed

subsection \<open>The rescan of the window\<close>

text \<open>
  From the second sample on, the rescan leaves the true minimum, maximum and mean of the
  buffer contents in the windowed statistics, and copies the windowed average into the
  lifetime average.
\<close>

lemma start_index_ring:
  assumes "ring_holds ws s"
  shows "nat (start_index s) = (length ws - SENSOR_HISTORY_SIZE) mod SENSOR_HISTORY_SIZE"
proof -
  let ?n = "length ws"
  from assms have cnt: "history_count s = min ?n 20" and hd: "history_head s = ?n mod 20"
    by (simp_all add: ring_holds_def)
  have nn: "0 \<le> int (?n mod 20) - int (min ?n 20) + 20" by simp
  have "start_index s = (int (?n mod 20) - int (min ?n 20) + 20) mod 20"
    unfolding start_index_def cnt hd using nn by (simp add: smod_mod_positive)
  also have "\<dots> = int ((?n - 20) mod 20)"
  proof (cases "?n < 20")
    case True
    then show ?thesis by simp
  next
    case False
    then have "(?n - 20) mod 20 = ?n mod 20"
      by (metis le_add_diff_inverse2 mod_add_self2 not_less)
    with False show ?thesis by simp
  qed
  finally show ?thesis by simp
qed

lemma scan_fold:
  "foldl (\<lambda>acc v. case acc of (p_sum, p_min, p_max) \<Rightarrow>
             (p_sum + v, if v < p_min then v else p_min, if v > p_max then v else p_max))
         (a, lo, hi) (cs :: real list)
     = (a + sum_list cs, Min (insert lo (set cs)), Max (insert hi (set cs)))"
proof (induction cs arbitrary: a lo hi)
  case Nil
  then show ?case by simp
next
  case (Cons c cs)
  have "Min (insert (if c < lo then c else lo) (set cs)) = Min (insert lo (insert c (set cs)))"
    by (cases "set cs = {}") (auto simp add: min_def Min_insert)
  moreover have "Max (insert (if c > hi then c else hi) (set cs)) = Max (insert hi (insert c (set cs)))"
    by (cases "set cs = {}") (auto simp add: max_def Max_insert)
  ultimately show ?case
    by (simp add: Cons.IH add.assoc)
qed

lemma scan_window_map:
  "scan_window buf start n
     = foldl (\<lambda>acc v. case acc of (p_sum, p_min, p_max) \<Rightarrow>
                (p_sum + v, if v < p_min then v else p_min, if v > p_max then v else p_max))
         (0, buf ! start, buf ! start)
         (map (\<lambda>i. buf ! ((start + i) mod SENSOR_HISTORY_SIZE)) [0..<n])"
  unfolding scan_window_def foldl_map
  by (rule arg_cong [where f = "\<lambda>g. foldl g _ _"]) (simp add: scan_step_def fun_eq_iff Let_def)

lemma ring_holds_window:
  assumes "ring_holds ws s"
  shows "map (\<lambda>i. history s ! (((length ws - SENSOR_HISTORY_SIZE) mod SENSOR_HISTORY_SIZE + i)
                                  mod SENSOR_HISTORY_SIZE))
           [0..<history_count s]
         = drop (length ws - SENSOR_HISTORY_SIZE) ws"
proof -
  let ?n = "length ws"
  from assms have cnt: "history_count s = min ?n 20"
    and old: "\<And>k. ?n - 20 \<le> k \<Longrightarrow> k < ?n \<Longrightarrow> history s ! (k mod 20) = ws ! k"
    by (simp_all add: ring_holds_def)
  show ?thesis
  proof (rule nth_equalityI)
    show "length (map (\<lambda>i. history s ! (((?n - SENSOR_HISTORY_SIZE) mod SENSOR_HISTORY_SIZE + i)
                                  mod SENSOR_HISTORY_SIZE)) [0..<history_count s])
            = length (drop (?n - SENSOR_HISTORY_SIZE) ws)"
      using cnt by simp
  next
    fix j
    assume "j < length (map (\<lambda>i. history s ! (((?n - SENSOR_HISTORY_SIZE) mod SENSOR_HISTORY_SIZE + i)
                                  mod SENSOR_HISTORY_SIZE)) [0..<history_count s])"
    then have j: "j < min ?n 20" using cnt by simp
    have "((?n - 20) mod 20 + j) mod 20 = (?n - 20 + j) mod 20"
      by (simp add: mod_add_left_eq)
    moreover have "history s ! ((?n - 20 + j) mod 20) = ws ! (?n - 20 + j)"
      using window_index [OF j] by (intro old)
    ultimately show "map (\<lambda>i. history s ! (((?n - SENSOR_HISTORY_SIZE) mod SENSOR_HISTORY_SIZE + i)
                                  mod SENSOR_HISTORY_SIZE)) [0..<history_count s] ! j
                       = drop (?n - SENSOR_HISTORY_SIZE) ws ! j"
      using j cnt by simp
  qed
qed

lemma scan_window_ring:
  assumes "ring_holds ws s" and "ws \<noteq> []"
  shows "scan_window (history s) (nat (start_index s)) (history_count s)
           = (sum_list (drop (length ws - SENSOR_HISTORY_SIZE) ws),
              Min (set (drop (length ws - SENSOR_HISTORY_SIZE) ws)),
              Max (set (drop (length ws - SENSOR_HISTORY_SIZE) ws)))"
proof -
  let ?cs = "drop (length ws - SENSOR_HISTORY_SIZE) ws"
  let ?start = "(length ws - SENSOR_HISTORY_SIZE) mod SENSOR_HISTORY_SIZE"
  have "0 < length ws" using assms(2) by simp
  then have "length ws - 20 < length ws" by simp
  then have ne: "?cs \<noteq> []" by simp
  have w: "map (\<lambda>i. history s ! ((?start + i) mod SENSOR_HISTORY_SIZE)) [0..<history_count s] = ?cs"
    using assms(1) by (rule ring_holds_window)
  have pos: "0 < history_count s"
    using assms by (simp add: ring_holds_def)
  have "history s ! ((?start + 0) mod SENSOR_HISTORY_SIZE) = ?cs ! 0"
    using arg_cong [OF w, of "\<lambda>l. l ! 0"] pos by simp
  then have first: "history s ! ?start = hd ?cs"
    using ne by (simp add: hd_conv_nth)
  have "hd ?cs \<in> set ?cs" using ne by (rule hd_in_set)
  then have ins: "insert (hd ?cs) (set ?cs) = set ?cs" by blast
  show ?thesis
    unfolding start_index_ring [OF assms(1)] scan_window_map w first scan_fold ins by simp
qed


lemma UpdateSensor_stats_window:
  assumes "history_count x \<noteq> 1"
  shows "local_min (stats (SensorTask_UpdateSensor_stats p q x))
           = fst (snd (scan_window (history x) (nat (start_index x)) (history_count x)))"
    and "local_max (stats (SensorTask_UpdateSensor_stats p q x))
           = snd (snd (scan_window (history x) (nat (start_index x)) (history_count x)))"
    and "local_avg (stats (SensorTask_UpdateSensor_stats p q x))
           = fst (scan_window (history x) (nat (start_index x)) (history_count x))
               / real (history_count x)"
    and "avg (stats (SensorTask_UpdateSensor_stats p q x))
           = local_avg (stats (SensorTask_UpdateSensor_stats p q x))"
    and "avg (secondary_stats (SensorTask_UpdateSensor_stats p q x))
           = (if type x = SENSOR_TYPE_SHT30
              then local_avg (secondary_stats (SensorTask_UpdateSensor_stats p q x))
              else avg (secondary_stats x))"
  using assms by (simp_all add: SensorTask_UpdateSensor_stats_def Let_def case_prod_beta)

lemma windowed_stats_after_second_sample:
  assumes "ring_holds ws x" and "ws \<noteq> []"
  shows "local_min (stats (SensorTask_UpdateSensor_locked t x))
           = Min (set (drop (Suc (length ws) - SENSOR_HISTORY_SIZE)
                         (ws @ [primary_value (SensorTask_UpdateSensor_locked t x)])))"
    and "local_max (stats (SensorTask_UpdateSensor_locked t x))
           = Max (set (drop (Suc (length ws) - SENSOR_HISTORY_SIZE)
                         (ws @ [primary_value (SensorTask_UpdateSensor_locked t x)])))"
    and "local_avg (stats (SensorTask_UpdateSensor_locked t x))
           = sum_list (drop (Suc (length ws) - SENSOR_HISTORY_SIZE)
                         (ws @ [primary_value (SensorTask_UpdateSensor_locked t x)]))
             / real (length (drop (Suc (length ws) - SENSOR_HISTORY_SIZE)
                         (ws @ [primary_value (SensorTask_UpdateSensor_locked t x)])))"
    and "avg (stats (SensorTask_UpdateSensor_locked t x))
           = local_avg (stats (SensorTask_UpdateSensor_locked t x))"
proof -
  let ?x2 = "x\<lparr>data := (data x)\<lparr>timestamp := t, is_valid := True\<rparr>, error_count := 0\<rparr>"
  let ?p = "primary_value ?x2"
  let ?x3 = "SensorTask_UpdateSensor_history ?p (secondary_value ?x2) ?x2"
  have l: "SensorTask_UpdateSensor_locked t x
             = SensorTask_UpdateSensor_stats ?p (secondary_value ?x2) ?x3"
    by (simp add: SensorTask_UpdateSensor_locked_def Let_def)
  have p: "primary_value (SensorTask_UpdateSensor_locked t x) = ?p"
    by (rule primary_value_cong) (simp_all add: UpdateSensor_locked_data)
  have "ring_holds ws ?x2"
    using assms(1) by (simp add: ring_holds_def)
  then have r3: "ring_holds (ws @ [?p]) ?x3"
    by (rule ring_holds_history)
  have c3: "history_count ?x3 = min (Suc (length ws)) SENSOR_HISTORY_SIZE"
    using r3 by (simp add: ring_holds_def)
  have "0 < length ws" using assms(2) by simp
  then have n1: "history_count ?x3 \<noteq> 1"
    unfolding c3 by simp
  have sc: "scan_window (history ?x3) (nat (start_index ?x3)) (history_count ?x3)
              = (sum_list (drop (length (ws @ [?p]) - SENSOR_HISTORY_SIZE) (ws @ [?p])),
                 Min (set (drop (length (ws @ [?p]) - SENSOR_HISTORY_SIZE) (ws @ [?p]))),
                 Max (set (drop (length (ws @ [?p]) - SENSOR_HISTORY_SIZE) (ws @ [?p]))))"
    using r3 by (rule scan_window_ring) simp
  have len: "real (length (drop (Suc (length ws) - SENSOR_HISTORY_SIZE) (ws @ [?p])))
               = real (history_count ?x3)"
    unfolding c3 by (simp add: min_def)
  show "local_min (stats (SensorTask_UpdateSensor_locked t x))
           = Min (set (drop (Suc (length ws) - SENSOR_HISTORY_SIZE)
                         (ws @ [primary_value (SensorTask_UpdateSensor_locked t x)])))"
    "local_max (stats (SensorTask_UpdateSensor_locked t x))
           = Max (set (drop (Suc (length ws) - SENSOR_HISTORY_SIZE)
                         (ws @ [primary_value (SensorTask_UpdateSensor_locked t x)])))"
    unfolding p unfolding l UpdateSensor_stats_window [OF n1] sc by simp_all
  show "local_avg (stats (SensorTask_UpdateSensor_locked t x))
           = sum_list (drop (Suc (length ws) - SENSOR_HISTORY_SIZE)
                         (ws @ [primary_value (SensorTask_UpdateSensor_locked t x)]))
             / real (length (drop (Suc (length ws) - SENSOR_HISTORY_SIZE)
                         (ws @ [primary_value (SensorTask_UpdateSensor_locked t x)])))"
    unfolding p len unfolding l UpdateSensor_stats_window [OF n1] sc by simp
  show "avg (stats (SensorTask_UpdateSensor_locked t x))
           = local_avg (stats (SensorTask_UpdateSensor_locked t x))"
    unfolding l by (rule UpdateSensor_stats_window(4) [OF n1])
qed

subsection \<open>The statistics after the first sample\<close>

text \<open>
  Claim C4, where the code departs from it. After the first successful read ever, here of
  the value 10 by the fake light sensor, the history buffer holds the single value 10 and
  the lifetime minimum and maximum are 10, but the windowed minimum, maximum and average
  are not seeded: they still are the 0 that \<^verbatim>\<open>SensorTask_Init\<close> left, not the minimum,
  maximum and mean of the buffer contents.
\<close>

theorem first_sample_windowed_stats_not_seeded:
  "primary_history True SENSOR_TYPE_GY30 demo_first = Some (1, [10])
   \<and> min_stat (stats (sensors demo_first SENSOR_TYPE_GY30)) = 10
   \<and> max_stat (stats (sensors demo_first SENSOR_TYPE_GY30)) = 10
   \<and> local_min (stats (sensors demo_first SENSOR_TYPE_GY30)) = 0
   \<and> local_max (stats (sensors demo_first SENSOR_TYPE_GY30)) = 0
   \<and> local_avg (stats (sensors demo_first SENSOR_TYPE_GY30)) = 0"
proof -
  have m: "(1::nat) < SENSOR_TYPE_MAX" by simp
  have o: "length (ordered_primary_history demo_first) = SENSOR_HISTORY_SIZE"
    using demo_first_fields(9) by simp
  have "primary_history True 1 demo_first
          = Some (min (length [10::real]) SENSOR_HISTORY_SIZE,
                  drop (length [10::real] - SENSOR_HISTORY_SIZE) [10])"
    using demo_first_fields(1) m demo_first_fields(4,8) o by (rule primary_history_eq)
  then show ?thesis
    using demo_first_fields(7) by (simp add: zero_stats_def)
qed

text \<open>
  Claim C5, where the code departs from it. After the first successful read ever, here of
  the value 10, the lifetime average is 10 and the windowed average is still 0: the two
  averages differ after the first sample.
\<close>

theorem first_sample_lifetime_avg_differs:
  "history_count (sensors demo_first SENSOR_TYPE_GY30) = 1
   \<and> avg (stats (sensors demo_first SENSOR_TYPE_GY30)) = 10
   \<and> local_avg (stats (sensors demo_first SENSOR_TYPE_GY30)) = 0
   \<and> avg (stats (sensors demo_first SENSOR_TYPE_GY30))
       \<noteq> local_avg (stats (sensors demo_first SENSOR_TYPE_GY30))"
  using demo_first_fields(6,7) by (simp add: zero_stats_def)

subsection \<open>Registering again after a first sample\<close>

text \<open>
  Claim C9 on the test run: the light sensor is registered a second time after its first
  sample; the call succeeds and the sample count, the buffer and the statistics are still
  there.
\<close>

theorem RegisterSensor_keeps_analytics_witness:
  "fst (SensorTask_RegisterSensor SENSOR_TYPE_GY30 ''Light'' (Some fake_callbacks) (Some []) 500
          demo_first)
   \<and> history_count (sensors (snd (SensorTask_RegisterSensor SENSOR_TYPE_GY30 ''Light''
        (Some fake_callbacks) (Some []) 500 demo_first)) SENSOR_TYPE_GY30) = 1
   \<and> history (sensors (snd (SensorTask_RegisterSensor SENSOR_TYPE_GY30 ''Light''
        (Some fake_callbacks) (Some []) 500 demo_first)) SENSOR_TYPE_GY30)
       = history (sensors demo_first SENSOR_TYPE_GY30)
   \<and> stats (sensors (snd (SensorTask_RegisterSensor SENSOR_TYPE_GY30 ''Light''
        (Some fake_callbacks) (Some []) 500 demo_first)) SENSOR_TYPE_GY30)
       = zero_stats\<lparr>min_stat := 10, max_stat := 10, avg := 10\<rparr>"
proof -
  have "fst (SensorTask_RegisterSensor SENSOR_TYPE_GY30 ''Light'' (Some fake_callbacks) (Some []) 500
          demo_first)"
    using demo_first_fields(1)
    by (simp add: SensorTask_RegisterSensor_def fake_callbacks_def)
  with RegisterSensor_keeps_analytics [of SENSOR_TYPE_GY30 "''Light''" "Some fake_callbacks"
      "Some []" 500 demo_first SENSOR_TYPE_GY30] demo_first_fields(6,7)
  show ?thesis by simp
qed

end
